theory Spec2Isabelle
  imports Complex_Main
begin

section \<open>Bubble series: radii, translation and axis padding\<close>

text \<open>
  A shallow embedding of \<^verbatim>\<open>js/parts-more/BubbleSeries.js\<close>: the series method
  \<^verbatim>\<open>getRadii\<close>, the bubble part of \<^verbatim>\<open>translate\<close> and \<^verbatim>\<open>Axis.prototype.beforePadding\<close>.

  JavaScript numbers are modelled as reals. Where a result is read through \<^verbatim>\<open>Math.ceil\<close>,
  in \<^verbatim>\<open>getRadii\<close>, a rounding error of one unit in the last place moves the result by
  half a pixel: there every operation is that of IEEE doubles, the exact result rounded to
  the nearest double (\<open>double\<close> below). The other arithmetic is over the reals, and the
  overflow of doubles is not part of the model. A value that is a number or \<^verbatim>\<open>null\<close> is
  a \<open>real option\<close>, with \<open>None\<close> for \<^verbatim>\<open>null\<close>. Where the JavaScript run would go on
  with \<^verbatim>\<open>NaN\<close> or an infinity, or would throw, the model returns a fault instead of a
  value.
\<close>

subsection \<open>Data\<close>

text \<open>
  The options \<^verbatim>\<open>minSize\<close> and \<^verbatim>\<open>maxSize\<close> are documented as \<^verbatim>\<open>{Number|String}\<close>:
  a pixel count, or a string such as \<^verbatim>\<open>'20%'\<close>.
\<close>

datatype length_opt = Num real | Str string

text \<open>
  What stops a run of the model: \<open>TypeError\<close> is the exception JavaScript throws on
  reading an index of \<^verbatim>\<open>undefined\<close>; \<open>NotFinite\<close> says that a \<^verbatim>\<open>NaN\<close> or an infinity
  arose (an unparseable size, a radius read past the end of \<^verbatim>\<open>radii\<close>, a division by
  zero). JavaScript does not throw there and carries on with that value; the real-valued
  model has no such value and ends the run.
\<close>

datatype fault = TypeError | NotFinite

record series_options =
  minSize :: length_opt
  maxSize :: length_opt
  sizeBy :: string
  sizeByAbsoluteValue :: bool
  zThreshold :: real
  displayNegative :: bool
  zMin :: "real option"
  zMax :: "real option"

text \<open>
  \<open>displayNegative\<close> is \<open>False\<close> exactly when the option is the value \<^verbatim>\<open>false\<close> (the
  source tests \<^verbatim>\<open>=== false\<close>). The options \<open>zMin\<close> and \<open>zMax\<close> are \<open>None\<close> when they
  are \<^verbatim>\<open>undefined\<close> or \<^verbatim>\<open>null\<close>.
\<close>

text \<open>
  A point after the parent (scatter) \<^verbatim>\<open>translate\<close>, with the properties the bubble
  \<^verbatim>\<open>translate\<close> writes. Of \<^verbatim>\<open>point.marker\<close> only the three properties written here are
  kept; \<^verbatim>\<open>H.extend\<close> leaves its other properties as they are.
\<close>

record marker =
  marker_radius :: real
  marker_width :: real
  marker_height :: real

record box =
  box_x :: real
  box_y :: "real option"
  box_width :: real
  box_height :: real

record point =
  plotX :: real
  plotY :: "real option"
  marker :: "marker option"
  dlBox :: "box option"
  shapeArgs :: "box option"

text \<open>
  A series: its options, the flags read by \<^verbatim>\<open>beforePadding\<close>, the parallel arrays
  \<^verbatim>\<open>xData\<close>, \<^verbatim>\<open>yData\<close>, \<^verbatim>\<open>zData\<close>, its points, and the three properties the code
  caches on it (\<open>None\<close> while they are \<^verbatim>\<open>undefined\<close>).
\<close>

record series =
  options :: series_options
  bubblePadding :: bool
  visible :: bool
  xData :: "real option list"
  yData :: "real option list"
  zData :: "real option list"
  data :: "point list"
  radii :: "real option list option"
  minPxSize :: "real option"
  maxPxSize :: "real option"

record chart =
  plotWidth :: real
  plotHeight :: real
  ignoreHiddenSeries :: bool

text \<open>
  An axis. \<open>min_axis\<close> and \<open>max_axis\<close> are \<^verbatim>\<open>axis.min\<close> and \<^verbatim>\<open>axis.max\<close>;
  \<open>min_option\<close> and \<open>max_option\<close> are \<^verbatim>\<open>axis.options.min\<close> and \<^verbatim>\<open>axis.options.max\<close>.
  The extremes and the data extremes are numbers; the options and the user extremes are
  \<open>None\<close> when \<^verbatim>\<open>undefined\<close> or \<^verbatim>\<open>null\<close>.
\<close>

record axis =
  len :: real
  isXAxis :: bool
  isLog :: bool
  min_axis :: real
  max_axis :: real
  dataMin :: real
  dataMax :: real
  min_option :: "real option"
  max_option :: "real option"
  userMin :: "real option"
  userMax :: "real option"
  allowZoomOutside :: bool

subsection \<open>Utilities\<close>

text \<open>
  \<^verbatim>\<open>Number.MAX_VALUE\<close>, the largest finite double.
\<close>

definition MAX_VALUE :: real where
  "MAX_VALUE = (2 ^ 53 - 1) * 2 ^ 971"

text \<open>
  Modelled from the spec: \<^verbatim>\<open>H.pick\<close> is defined in \<^verbatim>\<open>parts/Utilities.js\<close>, which is not
  among the sources. The spec has the options \<^verbatim>\<open>zMin\<close> and \<^verbatim>\<open>zMax\<close> override the
  extremes found in the data, and a side of the axis extended only when its user extreme
  is absent: \<^verbatim>\<open>pick(a, b)\<close> is the first of its arguments that is neither \<^verbatim>\<open>undefined\<close>
  nor \<^verbatim>\<open>null\<close>. \<open>pick\<close> is the call with a second argument that is a number, \<open>pick2\<close>
  the call where both arguments may be missing (\<open>None\<close> for a result \<^verbatim>\<open>undefined\<close>).
\<close>

definition pick :: "real option \<Rightarrow> real \<Rightarrow> real" where
  "pick a b = (case a of Some x \<Rightarrow> x | None \<Rightarrow> b)"

definition pick2 :: "real option \<Rightarrow> real option \<Rightarrow> real option" where
  "pick2 a b = (case a of Some x \<Rightarrow> Some x | None \<Rightarrow> b)"

text \<open>
  What arithmetic and \<^verbatim>\<open>Math.min\<close>, \<^verbatim>\<open>Math.max\<close> make of a value that is a number or
  \<^verbatim>\<open>null\<close>: \<^verbatim>\<open>null\<close> counts as 0.
\<close>

definition toNumber :: "real option \<Rightarrow> real" where
  "toNumber v = (case v of None \<Rightarrow> 0 | Some x \<Rightarrow> x)"

text \<open>
  \<^verbatim>\<open>/%$/.test(length)\<close>: the text of the option ends with a percent sign. The text of a
  number never does.
\<close>

definition isPercent :: "length_opt \<Rightarrow> bool" where
  "isPercent l = (case l of Num r \<Rightarrow> False | Str s \<Rightarrow> s \<noteq> [] \<and> last s = CHR ''%'')"

definition isSpace :: "char \<Rightarrow> bool" where
  "isSpace c = (c \<in> set [CHR '' '', CHR 0x09, CHR 0x0A, CHR 0x0B, CHR 0x0C, CHR 0x0D])"

definition isDigit :: "char \<Rightarrow> bool" where
  "isDigit c = (c \<in> set ''0123456789'')"

definition digitsValue :: "string \<Rightarrow> nat" where
  "digitsValue ds = foldl (\<lambda>n c. 10 * n + (of_char c - 48)) 0 ds"

text \<open>
  Modelled from the spec: \<^verbatim>\<open>H.pInt\<close> is defined in \<^verbatim>\<open>parts/Utilities.js\<close>, which is not
  among the sources. The spec has sizes that are a number or a percent string and resolves
  \<^verbatim>\<open>"50%"\<close> to 50 percent; \<open>pInt\<close> is taken to be \<^verbatim>\<open>parseInt(s, 10)\<close>: white space, an
  optional sign, then the longest run of decimal digits, and \<^verbatim>\<open>NaN\<close> (here \<open>None\<close>) when
  there is no digit. A number is first written out as text, so its fraction is dropped
  (numbers written with an exponent are outside the model).
\<close>

definition pInt :: "length_opt \<Rightarrow> real option" where
  "pInt l =
     (case l of
        Num r \<Rightarrow> Some (if r \<ge> 0 then of_int \<lfloor>r\<rfloor> else of_int \<lceil>r\<rceil>)
      | Str s \<Rightarrow>
          (let s1 = dropWhile isSpace s;
               (sign, s2) =
                 (case s1 of
                    [] \<Rightarrow> (1, [])
                  | c # cs \<Rightarrow>
                      if c = CHR ''-'' then (- 1, cs)
                      else if c = CHR ''+'' then (1, cs)
                      else (1, s1));
               ds = takeWhile isDigit s2
           in if ds = [] then None else Some (sign * real (digitsValue ds))))"

subsection \<open>Doubles\<close>

text \<open>
  The rounding of a real to the nearest IEEE 754 binary64 number, ties to the even
  significand. A double has a significand of 53 bits: between \<open>2^k\<close> and \<open>2^(k+1)\<close> the
  doubles are the multiples of \<open>2^(k-52)\<close>, and below \<open>2^-1022\<close> (the subnormal numbers)
  the multiples of \<open>2^-1074\<close>. \<open>ulpExp x\<close> is the exponent of that step at \<open>x\<close>. The
  arithmetic operations and the square root of doubles return the exact result rounded
  this way. Results beyond \<^verbatim>\<open>Number.MAX_VALUE\<close>, which JavaScript turns into an infinity,
  are not modelled.
\<close>

definition ulpExp :: "real \<Rightarrow> int" where
  "ulpExp x = max (\<lfloor>log 2 \<bar>x\<bar>\<rfloor> - 52) (- 1074)"

definition roundEven :: "real \<Rightarrow> int" where
  "roundEven y =
     (let n = \<lfloor>y\<rfloor>; f = y - of_int n
      in if f < 1 / 2 then n else if f > 1 / 2 then n + 1 else if even n then n else n + 1)"

definition double :: "real \<Rightarrow> real" where
  "double x =
     (if x = 0 then 0
      else of_int (roundEven (x / 2 powi ulpExp x)) * 2 powi ulpExp x)"

subsection \<open>getRadii\<close>

text \<open>
  One turn of the loop of \<^verbatim>\<open>getRadii\<close>. The loop assigns to its own parameters
  \<^verbatim>\<open>zMin\<close> and \<^verbatim>\<open>zMax\<close>, so their values are threaded from one turn to the next;
  \<^verbatim>\<open>zRange\<close> is computed once, before the loop, and never again. The result is the
  radius pushed and the values of \<^verbatim>\<open>zMin\<close> and \<^verbatim>\<open>zMax\<close> after the turn.

  The number under \<^verbatim>\<open>Math.ceil\<close> is a double, and so is every number it is computed
  from: each subtraction, division, product, sum and square root on the way to it is
  rounded by \<open>double\<close>. The halving after \<^verbatim>\<open>Math.ceil\<close> is exact. The radius
  \<^verbatim>\<open>minSize / 2 - 1\<close> of the second branch is taken over the reals.
\<close>

definition radiusStep ::
  "series_options \<Rightarrow> real \<Rightarrow> real \<Rightarrow> real \<Rightarrow> real \<Rightarrow> real \<Rightarrow> real option
     \<Rightarrow> real option \<times> real \<times> real" where
  "radiusStep opts zRange minsize maxsize zmin zmax v =
     (let sizeByArea = (sizeBy opts \<noteq> ''width'');
          (val, zmax1, zmin1) =
            (case v of
               Some x \<Rightarrow>
                 if sizeByAbsoluteValue opts
                 then (Some \<bar>double (x - zThreshold opts)\<bar>,
                       max (double (zmax - zThreshold opts))
                         \<bar>double (zmin - zThreshold opts)\<bar>,
                       0)
                 else (v, zmax, zmin)
             | None \<Rightarrow> (v, zmax, zmin));
          radius =
            (case val of
               None \<Rightarrow> None
             | Some x \<Rightarrow>
                 if x < zmin1 then Some (minsize / 2 - 1)
                 else
                   (let pos = (if zRange > 0 then double (double (x - zmin1) / zRange)
                               else 0.5);
                        pos1 = (if sizeByArea \<and> pos \<ge> 0 then double (sqrt pos) else pos)
                    in Some (of_int \<lceil>double (minsize +
                               double (pos1 * double (maxsize - minsize)))\<rceil> / 2)))
      in (radius, zmin1, zmax1))"

fun radiiLoop ::
  "series_options \<Rightarrow> real \<Rightarrow> real \<Rightarrow> real \<Rightarrow> real \<Rightarrow> real \<Rightarrow> real option list
     \<Rightarrow> real option list" where
  "radiiLoop opts zRange minsize maxsize zmin zmax [] = []"
| "radiiLoop opts zRange minsize maxsize zmin zmax (v # vs) =
     (case radiusStep opts zRange minsize maxsize zmin zmax v of
        (radius, zmin1, zmax1) \<Rightarrow>
          radius # radiiLoop opts zRange minsize maxsize zmin1 zmax1 vs)"

text \<open>
  \<^verbatim>\<open>getRadii(zMin, zMax, minSize, maxSize)\<close>, as a function of the series' options and
  \<^verbatim>\<open>zData\<close>; the result is the array stored in \<^verbatim>\<open>this.radii\<close>.
\<close>

definition getRadii ::
  "series_options \<Rightarrow> real option list \<Rightarrow> real \<Rightarrow> real \<Rightarrow> real \<Rightarrow> real \<Rightarrow> real option list" where
  "getRadii opts zs zmin zmax minsize maxsize =
     radiiLoop opts (double (zmax - zmin)) minsize maxsize zmin zmax zs"

subsection \<open>translate\<close>

text \<open>
  \<^verbatim>\<open>radii ? radii[i] : 0\<close> as \<^verbatim>\<open>isNumber\<close> sees it: \<open>None\<close> when the value read is
  \<^verbatim>\<open>null\<close>, or \<^verbatim>\<open>undefined\<close> (an index past the end of the array).
\<close>

definition radiusAt :: "real option list option \<Rightarrow> nat \<Rightarrow> real option" where
  "radiusAt rs i =
     (case rs of None \<Rightarrow> Some 0 | Some l \<Rightarrow> if i < length l then l ! i else None)"

text \<open>
  The body of the loop of \<^verbatim>\<open>translate\<close> for one point. A comparison with
  \<^verbatim>\<open>undefined / 2\<close> is false, so a series without \<^verbatim>\<open>minPxSize\<close> takes the second branch.
\<close>

definition clearShape :: "point \<Rightarrow> point" where
  "clearShape p = p\<lparr>shapeArgs := None, plotY := None, dlBox := None\<rparr>"

definition translatePoint :: "real option \<Rightarrow> real option \<Rightarrow> point \<Rightarrow> point" where
  "translatePoint minPx r p =
     (case r of
        None \<Rightarrow> clearShape p
      | Some rad \<Rightarrow>
          (case minPx of
             None \<Rightarrow> clearShape p
           | Some m \<Rightarrow>
               if rad \<ge> m / 2
               then p\<lparr>marker := Some \<lparr>marker_radius = rad, marker_width = 2 * rad,
                                        marker_height = 2 * rad\<rparr>,
                      dlBox := Some \<lparr>box_x = plotX p - rad,
                                      box_y = map_option (\<lambda>y. y - rad) (plotY p),
                                      box_width = 2 * rad, box_height = 2 * rad\<rparr>\<rparr>
               else clearShape p))"

text \<open>
  \<^verbatim>\<open>i = data.length; while (i--) { ... }\<close>: the points are visited from the last to the
  first.
\<close>

fun translateLoop ::
  "real option \<Rightarrow> real option list option \<Rightarrow> nat \<Rightarrow> point list \<Rightarrow> point list" where
  "translateLoop minPx rs 0 ps = ps"
| "translateLoop minPx rs (Suc i) ps =
     translateLoop minPx rs i (ps[i := translatePoint minPx (radiusAt rs i) (ps ! i)])"

text \<open>
  The bubble part of \<^verbatim>\<open>translate\<close>, on the points as the parent method (which is not
  among the sources) has left them.
\<close>

definition translate :: "series \<Rightarrow> series" where
  "translate s = s\<lparr>data := translateLoop (minPxSize s) (radii s) (length (data s)) (data s)\<rparr>"

subsection \<open>Axis.prototype.beforePadding\<close>

text \<open>
  \<^verbatim>\<open>H.arrayMin\<close> and \<^verbatim>\<open>H.arrayMax\<close> are defined in \<^verbatim>\<open>parts/Utilities.js\<close>, which is not
  among the sources. They are parameters \<open>amin\<close> and \<open>amax\<close> of the model: the number that
  \<^verbatim>\<open>Math.max\<close> and \<^verbatim>\<open>Math.min\<close> make of their result on \<^verbatim>\<open>zData\<close>.
\<close>

text \<open>
  Modelled from the spec: \<^verbatim>\<open>H.arrayMin\<close> and \<^verbatim>\<open>H.arrayMax\<close> are not among the sources, and
  the spec only says that the least and the greatest z are tracked. \<open>arrayMin\<close> and
  \<open>arrayMax\<close> are the least and the greatest entry of a non-empty array, a \<^verbatim>\<open>null\<close>
  entry counting as 0 as in every comparison of JavaScript. They stand for \<open>amin\<close> and
  \<open>amax\<close> in the examples only; no example below depends on how \<^verbatim>\<open>null\<close> is counted.
\<close>

definition arrayMin :: "real option list \<Rightarrow> real" where
  "arrayMin zs = (case map toNumber zs of [] \<Rightarrow> 0 | x # xs \<Rightarrow> fold min xs x)"

definition arrayMax :: "real option list \<Rightarrow> real" where
  "arrayMax zs = (case map toNumber zs of [] \<Rightarrow> 0 | x # xs \<Rightarrow> fold max xs x)"

definition isActive :: "chart \<Rightarrow> series \<Rightarrow> bool" where
  "isActive ch s = (bubblePadding s \<and> (visible s \<or> \<not> ignoreHiddenSeries ch))"

text \<open>
  One turn of \<^verbatim>\<open>each(['minSize', 'maxSize'], ...)\<close>: the value stored in
  \<^verbatim>\<open>extremes[prop]\<close>, \<open>None\<close> when it is \<^verbatim>\<open>NaN\<close>.
\<close>

definition resolveSize :: "real \<Rightarrow> length_opt \<Rightarrow> real option" where
  "resolveSize smallestSize l =
     (case pInt l of
        None \<Rightarrow> None
      | Some n \<Rightarrow> Some (if isPercent l then smallestSize * n / 100 else n))"

text \<open>
  The body of \<^verbatim>\<open>if (isXAxis)\<close> in the first loop, for one series: the series with its
  pixel sizes set, and the running \<^verbatim>\<open>zMin\<close> and \<^verbatim>\<open>zMax\<close>.
\<close>

definition collectSeries ::
  "(real option list \<Rightarrow> real) \<Rightarrow> (real option list \<Rightarrow> real) \<Rightarrow> real \<Rightarrow> series \<Rightarrow> real \<times> real
     \<Rightarrow> fault + (series \<times> real \<times> real)" where
  "collectSeries amin amax smallestSize s z =
     (case resolveSize smallestSize (minSize (options s)) of
        None \<Rightarrow> Inl NotFinite
      | Some mn \<Rightarrow>
          (case resolveSize smallestSize (maxSize (options s)) of
             None \<Rightarrow> Inl NotFinite
           | Some mx \<Rightarrow>
               (let s1 = s\<lparr>minPxSize := Some mn, maxPxSize := Some (max mx mn)\<rparr>
                in if zData s \<noteq> []
                   then Inr (s1,
                     pick (zMin (options s))
                       (min (fst z)
                          (max (amin (zData s))
                             (if \<not> displayNegative (options s) then zThreshold (options s)
                              else - MAX_VALUE))),
                     pick (zMax (options s)) (max (snd z) (amax (zData s))))
                   else Inr (s1, z))))"

text \<open>
  The first loop over \<^verbatim>\<open>this.series\<close>. The series are objects changed in place; the
  model returns the list of all the series, those it has changed and the others, in the
  order of \<^verbatim>\<open>this.series\<close>.
\<close>

fun collectLoop ::
  "(real option list \<Rightarrow> real) \<Rightarrow> (real option list \<Rightarrow> real) \<Rightarrow> chart \<Rightarrow> axis \<Rightarrow> series list
     \<Rightarrow> real \<times> real \<Rightarrow> fault + (series list \<times> real \<times> real)" where
  "collectLoop amin amax ch ax [] z = Inr ([], z)"
| "collectLoop amin amax ch ax (s # ss) z =
     (if isActive ch s \<and> isXAxis ax
      then
        (case collectSeries amin amax (min (plotWidth ch) (plotHeight ch)) s z of
           Inl e \<Rightarrow> Inl e
         | Inr (s1, z1) \<Rightarrow>
             (case collectLoop amin amax ch ax ss z1 of
                Inl e \<Rightarrow> Inl e
              | Inr (ss1, z2) \<Rightarrow> Inr (s1 # ss1, z2)))
      else
        (case collectLoop amin amax ch ax ss z of
           Inl e \<Rightarrow> Inl e
         | Inr (ss1, z2) \<Rightarrow> Inr (s # ss1, z2)))"

text \<open>
  \<^verbatim>\<open>transA = axisLength / range\<close>, as computed at the start. It is read only under
  \<^verbatim>\<open>range > 0\<close>.
\<close>

definition transA0 :: "axis \<Rightarrow> real" where
  "transA0 ax = len ax / (max_axis ax - min_axis ax)"

text \<open>
  The body of the \<^verbatim>\<open>while (i--)\<close> loop of the second pass for the index \<open>i\<close>, on the
  accumulated \<^verbatim>\<open>pxMin\<close> and \<^verbatim>\<open>pxMax\<close>. \<^verbatim>\<open>isNumber\<close> (of \<^verbatim>\<open>parts/Utilities.js\<close>) holds
  of a number and not of \<^verbatim>\<open>null\<close>. A \<^verbatim>\<open>null\<close> radius counts as 0 in the subtraction
  and the addition; a radius read past the end of \<^verbatim>\<open>radii\<close> is \<^verbatim>\<open>undefined\<close> and makes
  both \<^verbatim>\<open>NaN\<close>.
\<close>

definition padPoint ::
  "axis \<Rightarrow> real option list option \<Rightarrow> real option list \<Rightarrow> nat \<Rightarrow> real \<times> real
     \<Rightarrow> fault + real \<times> real" where
  "padPoint ax rs dat i px =
     (case dat ! i of
        None \<Rightarrow> Inr px
      | Some d \<Rightarrow>
          if dataMin ax \<le> d \<and> d \<le> dataMax ax
          then
            (case rs of
               None \<Rightarrow> Inl TypeError
             | Some l \<Rightarrow>
                 if i < length l
                 then
                   (let r = toNumber (l ! i)
                    in Inr (min ((d - min_axis ax) * transA0 ax - r) (fst px),
                            max ((d - min_axis ax) * transA0 ax + r) (snd px)))
                 else Inl NotFinite)
          else Inr px)"

fun padLoop ::
  "axis \<Rightarrow> real option list option \<Rightarrow> real option list \<Rightarrow> nat \<Rightarrow> real \<times> real
     \<Rightarrow> fault + real \<times> real" where
  "padLoop ax rs dat 0 px = Inr px"
| "padLoop ax rs dat (Suc i) px =
     (case padPoint ax rs dat i px of
        Inl e \<Rightarrow> Inl e
      | Inr px1 \<Rightarrow> padLoop ax rs dat i px1)"

text \<open>
  The body of the second loop for one series. On the X axis \<^verbatim>\<open>getRadii\<close> is called with
  the pixel sizes the first loop has stored on the series.
\<close>

definition padSeries ::
  "axis \<Rightarrow> real \<times> real \<Rightarrow> series \<Rightarrow> real \<times> real \<Rightarrow> fault + (series \<times> real \<times> real)" where
  "padSeries ax z s px =
     (let dat = (if isXAxis ax then xData s else yData s);
          s1 = (if isXAxis ax
                then (case minPxSize s of
                        None \<Rightarrow> Inl NotFinite
                      | Some mn \<Rightarrow>
                          (case maxPxSize s of
                             None \<Rightarrow> Inl NotFinite
                           | Some mx \<Rightarrow>
                               Inr (s\<lparr>radii :=
                                 Some (getRadii (options s) (zData s) (fst z) (snd z) mn mx)\<rparr>)))
                else Inr s)
      in case s1 of
           Inl e \<Rightarrow> Inl e
         | Inr s2 \<Rightarrow>
             if max_axis ax - min_axis ax > 0
             then (case padLoop ax (radii s2) dat (length dat) px of
                     Inl e \<Rightarrow> Inl e
                   | Inr px1 \<Rightarrow> Inr (s2, px1))
             else Inr (s2, px))"

text \<open>
  The second loop, over \<^verbatim>\<open>activeSeries\<close>: the series for which the first loop's test
  held, in the same order.
\<close>

fun padAll ::
  "chart \<Rightarrow> axis \<Rightarrow> real \<times> real \<Rightarrow> series list \<Rightarrow> real \<times> real
     \<Rightarrow> fault + (series list \<times> real \<times> real)" where
  "padAll ch ax z [] px = Inr ([], px)"
| "padAll ch ax z (s # ss) px =
     (if isActive ch s
      then
        (case padSeries ax z s px of
           Inl e \<Rightarrow> Inl e
         | Inr (s1, px1) \<Rightarrow>
             (case padAll ch ax z ss px1 of
                Inl e \<Rightarrow> Inl e
              | Inr (ss1, px2) \<Rightarrow> Inr (s1 # ss1, px2)))
      else
        (case padAll ch ax z ss px of
           Inl e \<Rightarrow> Inl e
         | Inr (ss1, px2) \<Rightarrow> Inr (s # ss1, px2)))"

text \<open>
  One turn of the last \<^verbatim>\<open>each\<close>: \<^verbatim>\<open>axis[keys[0]] += keys[2] / transA\<close> unless the
  option or the user extreme is set. A division by a zero \<^verbatim>\<open>transA\<close> gives no number.
\<close>

definition extendSide :: "real option \<Rightarrow> real option \<Rightarrow> real \<Rightarrow> real \<Rightarrow> real \<Rightarrow> fault + real" where
  "extendSide opt usr transA px v =
     (if pick2 opt usr = None
      then (if transA = 0 then Inl NotFinite else Inr (v + px / transA))
      else Inr v)"

text \<open>
  The last statement of \<^verbatim>\<open>beforePadding\<close>; \<open>active\<close> is \<^verbatim>\<open>activeSeries.length\<close> as a
  truth value, \<open>px\<close> the accumulated \<^verbatim>\<open>pxMin\<close> and \<^verbatim>\<open>pxMax\<close>.
\<close>

definition padAxis :: "axis \<Rightarrow> bool \<Rightarrow> real \<times> real \<Rightarrow> fault + axis" where
  "padAxis ax active px =
     (if active \<and> max_axis ax - min_axis ax > 0 \<and> \<not> isLog ax
      then
        (let axisLength = len ax;
             pxMin = fst px;
             pxMax = snd px - axisLength;
             transA = transA0 ax * ((axisLength + pxMin - pxMax) / axisLength)
         in case extendSide (min_option ax) (userMin ax) transA pxMin (min_axis ax) of
              Inl e \<Rightarrow> Inl e
            | Inr mn \<Rightarrow>
                (case extendSide (max_option ax) (userMax ax) transA pxMax (max_axis ax) of
                   Inl e \<Rightarrow> Inl e
                 | Inr mx \<Rightarrow> Inr (ax\<lparr>min_axis := mn, max_axis := mx\<rparr>)))
      else Inr ax)"

text \<open>
  The accumulated \<^verbatim>\<open>pxMin\<close> and \<^verbatim>\<open>pxMax\<close> after the two loops, with the series as the
  loops leave them.
\<close>

definition paddingPasses ::
  "(real option list \<Rightarrow> real) \<Rightarrow> (real option list \<Rightarrow> real) \<Rightarrow> chart \<Rightarrow> axis \<Rightarrow> series list
     \<Rightarrow> fault + (series list \<times> real \<times> real)" where
  "paddingPasses amin amax ch ax ss =
     (case collectLoop amin amax ch ax ss (MAX_VALUE, - MAX_VALUE) of
        Inl e \<Rightarrow> Inl e
      | Inr (ss1, z) \<Rightarrow> padAll ch ax z ss1 (0, len ax))"

definition beforePadding ::
  "(real option list \<Rightarrow> real) \<Rightarrow> (real option list \<Rightarrow> real) \<Rightarrow> chart \<Rightarrow> axis \<Rightarrow> series list
     \<Rightarrow> fault + (axis \<times> series list)" where
  "beforePadding amin amax ch ax ss =
     (case paddingPasses amin amax ch ax ss of
        Inl e \<Rightarrow> Inl e
      | Inr (ss1, px) \<Rightarrow>
          (let active = list_ex (isActive ch) ss;
               ax1 = (if active then ax\<lparr>allowZoomOutside := True\<rparr> else ax)
           in case padAxis ax1 active px of
                Inl e \<Rightarrow> Inl e
              | Inr ax2 \<Rightarrow> Inr (ax2, ss1)))"

subsection \<open>Notions used in the statements\<close>

text \<open>
  The value and the \<^verbatim>\<open>zMin\<close> that the turn of \<^verbatim>\<open>getRadii\<close> for a value that is not
  \<^verbatim>\<open>null\<close> works with: under \<^verbatim>\<open>sizeByAbsoluteValue\<close> the turn has replaced the value by
  its distance to the threshold, a double, and \<^verbatim>\<open>zMin\<close> by 0.
\<close>

definition workingValue :: "series_options \<Rightarrow> real \<Rightarrow> real" where
  "workingValue opts x =
     (if sizeByAbsoluteValue opts then \<bar>double (x - zThreshold opts)\<bar> else x)"

definition workingZMin :: "series_options \<Rightarrow> real \<Rightarrow> real" where
  "workingZMin opts zmin = (if sizeByAbsoluteValue opts then 0 else zmin)"

text \<open>
  The last branch of the loop of \<^verbatim>\<open>getRadii\<close>, as a function of the working value \<open>v\<close>
  and the working minimum \<open>wz\<close>.
\<close>

definition sizedRadius :: "series_options \<Rightarrow> real \<Rightarrow> real \<Rightarrow> real \<Rightarrow> real \<Rightarrow> real \<Rightarrow> real" where
  "sizedRadius opts zRange minsize maxsize wz v =
     (let pos = (if zRange > 0 then double (double (v - wz) / zRange) else 0.5);
          pos1 = (if sizeBy opts \<noteq> ''width'' \<and> pos \<ge> 0 then double (sqrt pos) else pos)
      in of_int \<lceil>double (minsize + double (pos1 * double (maxsize - minsize)))\<rceil> / 2)"

text \<open>
  What the two loops of \<^verbatim>\<open>beforePadding\<close> store on an active series of an X axis.
\<close>

definition smallestSize :: "chart \<Rightarrow> real" where
  "smallestSize ch = min (plotWidth ch) (plotHeight ch)"

definition withSizes :: "chart \<Rightarrow> series \<Rightarrow> series" where
  "withSizes ch s =
     (case resolveSize (smallestSize ch) (minSize (options s)) of
        None \<Rightarrow> s
      | Some mn \<Rightarrow>
          (case resolveSize (smallestSize ch) (maxSize (options s)) of
             None \<Rightarrow> s
           | Some mx \<Rightarrow> s\<lparr>minPxSize := Some mn, maxPxSize := Some (max mx mn)\<rparr>))"

definition withRadii :: "real \<times> real \<Rightarrow> series \<Rightarrow> series" where
  "withRadii z s =
     (case minPxSize s of
        None \<Rightarrow> s
      | Some mn \<Rightarrow>
          (case maxPxSize s of
             None \<Rightarrow> s
           | Some mx \<Rightarrow>
               s\<lparr>radii := Some (getRadii (options s) (zData s) (fst z) (snd z) mn mx)\<rparr>))"

subsection \<open>Example data\<close>

definition areaOpts :: series_options where
  "areaOpts = \<lparr>minSize = Num 10, maxSize = Num 50, sizeBy = ''area'',
     sizeByAbsoluteValue = False, zThreshold = 0, displayNegative = True,
     zMin = None, zMax = None\<rparr>"

definition absOpts :: series_options where
  "absOpts = \<lparr>minSize = Num 10, maxSize = Num 50, sizeBy = ''width'',
     sizeByAbsoluteValue = True, zThreshold = 0, displayNegative = True,
     zMin = None, zMax = None\<rparr>"

definition thresholdOpts :: series_options where
  "thresholdOpts = absOpts\<lparr>zThreshold := 4\<rparr>"

definition exChart :: chart where
  "exChart = \<lparr>plotWidth = 200, plotHeight = 100, ignoreHiddenSeries = True\<rparr>"

definition exAxis :: axis where
  "exAxis = \<lparr>len = 100, isXAxis = True, isLog = False, min_axis = 0, max_axis = 10,
     dataMin = 0, dataMax = 10, min_option = None, max_option = None,
     userMin = None, userMax = None, allowZoomOutside = False\<rparr>"

definition exOptions :: series_options where
  "exOptions = \<lparr>minSize = Num 20, maxSize = Num 60, sizeBy = ''width'',
     sizeByAbsoluteValue = False, zThreshold = 0, displayNegative = True,
     zMin = None, zMax = None\<rparr>"

definition exSeries :: series where
  "exSeries = \<lparr>options = exOptions, bubblePadding = True, visible = True,
     xData = [Some 0, Some 1], yData = [Some 3, Some 4], zData = [Some 0, Some 1],
     data = [], radii = None, minPxSize = None, maxPxSize = None\<rparr>"


definition exPoint :: point where
  "exPoint = \<lparr>plotX = 30, plotY = Some 40, marker = None, dlBox = None, shapeArgs = None\<rparr>"

definition exBelow :: series where
  "exBelow = exSeries\<lparr>zData := [Some 1, Some 10], data := [exPoint, exPoint],
     minPxSize := Some 20, maxPxSize := Some 60,
     radii := Some (getRadii exOptions [Some 1, Some 10] 5 10 20 60)\<rparr>"

definition exNegative :: series where
  "exNegative = exSeries\<lparr>options := exOptions\<lparr>displayNegative := False\<rparr>,
     zData := [Some (- 5), Some 10], data := [exPoint, exPoint]\<rparr>"

definition exPercent :: series where
  "exPercent = exSeries\<lparr>options := exOptions\<lparr>minSize := Str ''50%'', maxSize := Str ''10%''\<rparr>\<rparr>"

definition exAllNull :: series where
  "exAllNull = exSeries\<lparr>options := exOptions\<lparr>zMin := Some 5, zMax := Some 7\<rparr>,
     zData := [None, None]\<rparr>"

definition exEmpty :: series where
  "exEmpty = exSeries\<lparr>xData := [], yData := [], zData := []\<rparr>"

definition exPinnedAxis :: axis where
  "exPinnedAxis = exAxis\<lparr>min_axis := 5, min_option := Some 5\<rparr>"

definition exNullPoint :: series where
  "exNullPoint = exSeries\<lparr>options := exOptions\<lparr>maxSize := Num 20, zMin := Some 0, zMax := Some 2\<rparr>,
     xData := [Some 2, Some 10], yData := [Some 3, Some 4], zData := [None, Some 1]\<rparr>"

definition exNullPointAbsent :: series where
  "exNullPointAbsent = exNullPoint\<lparr>xData := [Some 10], yData := [Some 4], zData := [Some 1]\<rparr>"

section \<open>Properties\<close>

subsection \<open>Rounding to a double\<close>

lemma roundEven_of_int [simp]: "roundEven (of_int n) = n"
  by (simp add: roundEven_def)

lemma roundEven_bounds: "\<lfloor>y\<rfloor> \<le> roundEven y" "roundEven y \<le> \<lfloor>y\<rfloor> + 1"
  by (simp_all add: roundEven_def Let_def)

lemma roundEven_mono: "y \<le> y' \<Longrightarrow> roundEven y \<le> roundEven y'"
proof -
  assume le: "y \<le> y'"
  then have fl: "\<lfloor>y\<rfloor> \<le> \<lfloor>y'\<rfloor>" by (rule floor_mono)
  show ?thesis
  proof (cases "\<lfloor>y\<rfloor> = \<lfloor>y'\<rfloor>")
    case True
    with le have "y - of_int \<lfloor>y\<rfloor> \<le> y' - of_int \<lfloor>y'\<rfloor>" by simp
    with True show ?thesis by (auto simp: roundEven_def Let_def)
  next
    case False
    with fl have "\<lfloor>y\<rfloor> + 1 \<le> \<lfloor>y'\<rfloor>" by simp
    with roundEven_bounds(2) [of y] roundEven_bounds(1) [of y'] show ?thesis by linarith
  qed
qed

lemma roundEven_minus: "roundEven (- y) = - roundEven y"
proof (cases "y = of_int \<lfloor>y\<rfloor>")
  case True
  then obtain n where "y = of_int n" ..
  then show ?thesis by (simp flip: of_int_minus)
next
  case False
  then have fl: "\<lfloor>- y\<rfloor> = - \<lfloor>y\<rfloor> - 1"
    by (metis ceiling_altdef ceiling_def minus_diff_eq minus_minus diff_minus_eq_add uminus_add_conv_diff)
  have f: "0 < y - of_int \<lfloor>y\<rfloor>" using False by (metis diff_gt_0_iff_gt less_eq_real_def of_int_floor_le)
  show ?thesis using False f
    by (auto simp: roundEven_def Let_def fl)
qed

lemma double_0 [simp]: "double 0 = 0"
  by (simp add: double_def)

lemma ulpExp_minus [simp]: "ulpExp (- x) = ulpExp x"
  by (simp add: ulpExp_def)

lemma double_minus: "double (- x) = - double x"
  by (simp add: double_def roundEven_minus)

text \<open>The bracket of a positive number by powers of two.\<close>

lemma floor_log2_bracket:
  assumes "0 < x"
  shows "2 powi \<lfloor>log 2 x\<rfloor> \<le> x" and "x < 2 powi (\<lfloor>log 2 x\<rfloor> + 1)"
proof -
  have "2 powr real_of_int \<lfloor>log 2 x\<rfloor> \<le> x \<and> x < 2 powr real_of_int (\<lfloor>log 2 x\<rfloor> + 1)"
    using floor_log_eq_powr_iff [of x 2 "\<lfloor>log 2 x\<rfloor>"] assms by simp
  then have "2 powr real_of_int \<lfloor>log 2 x\<rfloor> \<le> x"
    and "x < 2 powr real_of_int (\<lfloor>log 2 x\<rfloor> + 1)" by simp_all
  then show "2 powi \<lfloor>log 2 x\<rfloor> \<le> x" and "x < 2 powi (\<lfloor>log 2 x\<rfloor> + 1)"
    by (simp_all only: powr_real_of_int' [of 2, simplified])
qed

lemma floor_log2_less:
  assumes "0 < x" and "x < 2 powi k"
  shows "\<lfloor>log 2 x\<rfloor> < k"
proof (rule ccontr)
  assume "\<not> \<lfloor>log 2 x\<rfloor> < k"
  then have "k \<le> \<lfloor>log 2 x\<rfloor>" by simp
  then have "(2::real) powi k \<le> 2 powi \<lfloor>log 2 x\<rfloor>" by (intro power_int_increasing) simp_all
  with floor_log2_bracket(1) [OF assms(1)] assms(2) show False by linarith
qed

text \<open>Rounding on a grid of step \<open>u\<close> does not cross a point of the grid.\<close>

lemma grid_round_le:
  assumes "0 < u" and "x \<le> of_int k * u"
  shows "of_int (roundEven (x / u)) * u \<le> of_int k * u"
proof -
  from assms have "x / u \<le> of_int k" by (simp add: pos_divide_le_eq)
  then have "roundEven (x / u) \<le> roundEven (of_int k)" by (rule roundEven_mono)
  then have "(of_int (roundEven (x / u)) :: real) \<le> of_int k" by simp
  with assms(1) show ?thesis by (simp add: mult_right_mono)
qed

lemma grid_round_ge:
  assumes "0 < u" and "of_int k * u \<le> x"
  shows "of_int k * u \<le> of_int (roundEven (x / u)) * u"
proof -
  from assms have "of_int k \<le> x / u" by (simp add: pos_le_divide_eq)
  then have "roundEven (of_int k) \<le> roundEven (x / u)" by (rule roundEven_mono)
  then have "(of_int k :: real) \<le> of_int (roundEven (x / u))" by simp
  with assms(1) show ?thesis by (simp add: mult_right_mono)
qed

lemma double_nonneg: "0 \<le> x \<Longrightarrow> 0 \<le> double x"
  using grid_round_ge [of "2 powi ulpExp x" 0 x] by (simp add: double_def)

lemma pow2_multiple:
  assumes "e \<le> k"
  shows "(2::real) powi k = of_int (2 ^ nat (k - e)) * 2 powi e"
proof -
  have "(2::real) powi k = 2 powi (k - e) * 2 powi e"
    by (simp flip: power_int_add)
  also have "(2::real) powi (k - e) = 2 ^ nat (k - e)"
    using assms by (simp add: power_int_def)
  finally show ?thesis by simp
qed

lemma ulpExp_mono:
  assumes "0 < x" and "x \<le> y"
  shows "ulpExp x \<le> ulpExp y"
proof -
  have "log 2 x \<le> log 2 y" using assms by simp
  then have "\<lfloor>log 2 x\<rfloor> \<le> \<lfloor>log 2 y\<rfloor>" by (rule floor_mono)
  then show ?thesis using assms by (simp add: ulpExp_def)
qed

lemma double_mono_pos:
  assumes "0 < x" and "x \<le> y"
  shows "double x \<le> double y"
proof -
  from assms have y: "0 < y" by simp
  let ?ex = "ulpExp x" and ?ey = "ulpExp y"
  have ux: "0 < (2::real) powi ?ex" and uy: "0 < (2::real) powi ?ey" by simp_all
  have dx: "double x = of_int (roundEven (x / 2 powi ?ex)) * 2 powi ?ex"
    and dy: "double y = of_int (roundEven (y / 2 powi ?ey)) * 2 powi ?ey"
    using assms y by (simp_all add: double_def)
  from ulpExp_mono [OF assms] have le: "?ex \<le> ?ey" .
  show ?thesis
  proof (cases "?ex = ?ey")
    case True
    from assms(2) uy have "x / 2 powi ?ey \<le> y / 2 powi ?ey" by (simp add: divide_right_mono)
    then have "roundEven (x / 2 powi ?ey) \<le> roundEven (y / 2 powi ?ey)" by (rule roundEven_mono)
    then have "(of_int (roundEven (x / 2 powi ?ey)) :: real) \<le> of_int (roundEven (y / 2 powi ?ey))"
      by simp
    with uy have "of_int (roundEven (x / 2 powi ?ey)) * (2::real) powi ?ey
        \<le> of_int (roundEven (y / 2 powi ?ey)) * 2 powi ?ey"
      by (simp add: mult_right_mono)
    with dx dy True show ?thesis by simp
  next
    case False
    with le have lt: "?ex < ?ey" by simp
    let ?k = "\<lfloor>log 2 y\<rfloor>"
    from lt have ey: "?ey = ?k - 52" using y by (simp add: ulpExp_def max_def split: if_splits)
    have "\<lfloor>log 2 x\<rfloor> - 52 \<le> ?ex" using assms(1) by (simp add: ulpExp_def)
    with lt ey have fl: "\<lfloor>log 2 x\<rfloor> + 1 \<le> ?k" by simp
    have "x < 2 powi (\<lfloor>log 2 x\<rfloor> + 1)" using assms(1) by (rule floor_log2_bracket(2))
    also have "\<dots> \<le> 2 powi ?k" using fl by (intro power_int_increasing) simp_all
    finally have xB: "x \<le> 2 powi ?k" by simp
    have By: "2 powi ?k \<le> y" using y by (rule floor_log2_bracket(1))
    have mx: "(2::real) powi ?k = of_int (2 ^ nat (?k - ?ex)) * 2 powi ?ex"
      using lt ey by (intro pow2_multiple) simp
    have my: "(2::real) powi ?k = of_int (2 ^ nat (?k - ?ey)) * 2 powi ?ey"
      using ey by (intro pow2_multiple) simp
    have "double x \<le> 2 powi ?k"
      using grid_round_le [OF ux, of x "2 ^ nat (?k - ?ex)"] xB dx mx by simp
    moreover have "2 powi ?k \<le> double y"
      using grid_round_ge [OF uy, of "2 ^ nat (?k - ?ey)" y] By dy my by simp
    ultimately show ?thesis by simp
  qed
qed

lemma double_mono: "x \<le> y \<Longrightarrow> double x \<le> double y"
proof -
  assume le: "x \<le> y"
  consider "0 < x" | "x \<le> 0" "0 \<le> y" | "y < 0" by linarith
  then show ?thesis
  proof cases
    case 1
    then show ?thesis using le by (rule double_mono_pos)
  next
    case 2
    have "double x \<le> 0" using double_nonneg [of "- x"] 2(1) by (simp add: double_minus)
    moreover have "0 \<le> double y" using 2(2) by (rule double_nonneg)
    ultimately show ?thesis by simp
  next
    case 3
    with le have "0 < - y" "- y \<le> - x" by simp_all
    then have "double (- y) \<le> double (- x)" by (rule double_mono_pos)
    then show ?thesis by (simp add: double_minus)
  qed
qed

text \<open>A number with a significand below \<open>2^53\<close> is a double and is not changed.\<close>

lemma double_exact:
  assumes m: "\<bar>m\<bar> < 2 ^ 53" and e: "- 1074 \<le> e"
  shows "double (of_int m * 2 powi e) = of_int m * 2 powi e"
proof (cases "m = 0")
  case True
  then show ?thesis by simp
next
  case False
  let ?x = "of_int m * (2::real) powi e"
  have x0: "?x \<noteq> 0" using False by simp
  have ax: "\<bar>?x\<bar> = of_int \<bar>m\<bar> * 2 powi e" by (simp add: abs_mult)
  have "of_int \<bar>m\<bar> < (2::real) ^ 53" using m by (metis of_int_less_iff of_int_numeral of_int_power)
  then have "\<bar>?x\<bar> < 2 ^ 53 * 2 powi e" unfolding ax by (simp add: mult_strict_right_mono)
  also have "\<dots> = 2 powi (53 + e)" by (simp add: power_int_add)
  finally have "\<lfloor>log 2 \<bar>?x\<bar>\<rfloor> < 53 + e" using x0 by (intro floor_log2_less) simp_all
  with e have le: "ulpExp ?x \<le> e" by (simp add: ulpExp_def)
  have "(2::real) powi e = of_int (2 ^ nat (e - ulpExp ?x)) * 2 powi ulpExp ?x"
    using le by (rule pow2_multiple)
  then have "?x = of_int (m * 2 ^ nat (e - ulpExp ?x)) * 2 powi ulpExp ?x"
    by simp
  then have "?x / 2 powi ulpExp ?x = of_int (m * 2 ^ nat (e - ulpExp ?x))"
    by (metis nonzero_eq_divide_eq power_int_eq_0_iff zero_neq_numeral)
  then have "roundEven (?x / 2 powi ulpExp ?x) = m * 2 ^ nat (e - ulpExp ?x)"
    by (simp only: roundEven_of_int)
  then have "double ?x = of_int (m * 2 ^ nat (e - ulpExp ?x)) * 2 powi ulpExp ?x"
    using x0 by (simp add: double_def)
  also have "\<dots> = of_int m * (of_int (2 ^ nat (e - ulpExp ?x)) * 2 powi ulpExp ?x)"
    by simp
  also have "\<dots> = ?x" using pow2_multiple [OF le] by simp
  finally show ?thesis .
qed

text \<open>Rules that evaluate \<open>double\<close> on the numbers of the examples.\<close>

lemma double_of_int: "\<bar>m\<bar> < 2 ^ 53 \<Longrightarrow> double (of_int m) = of_int m"
  using double_exact [of m 0] by simp

lemma double_numeral [simp]:
  "(numeral n :: int) < 2 ^ 53 \<Longrightarrow> double (numeral n) = numeral n"
  using double_of_int [of "numeral n"] by simp

lemma double_neg_numeral [simp]:
  "(numeral n :: int) < 2 ^ 53 \<Longrightarrow> double (- numeral n) = - numeral n"
  by (simp add: double_minus)

lemma double_1 [simp]: "double 1 = 1"
  using double_of_int [of 1] by simp

lemma double_dyadic:
  "\<bar>m\<bar> < 2 ^ 53 \<Longrightarrow> k \<le> 1074 \<Longrightarrow> double (of_int m / 2 ^ k) = of_int m / 2 ^ k"
  using double_exact [of m "- int k"] by (simp add: power_int_minus field_simps)

lemma double_fractions [simp]:
  "double (1 / 2) = 1 / 2" "double (1 / 4) = 1 / 4" "double (5 / 2) = 5 / 2"
  using double_dyadic [of 1 1] double_dyadic [of 1 2] double_dyadic [of 5 1] by simp_all

subsection \<open>The radii\<close>

lemma radiusStep_None: "radiusStep opts zR mn mx zm zx None = (None, zm, zx)"
  by (simp add: radiusStep_def)

lemma radiusStep_Some:
  "fst (radiusStep opts zR mn mx zm zx (Some x)) =
     (if workingValue opts x < workingZMin opts zm then Some (mn / 2 - 1)
      else Some (sizedRadius opts zR mn mx (workingZMin opts zm) (workingValue opts x)))"
  by (simp add: radiusStep_def workingValue_def workingZMin_def sizedRadius_def Let_def)

lemma radiusStep_zmin:
  "workingZMin opts (fst (snd (radiusStep opts zR mn mx zm zx v))) = workingZMin opts zm"
  by (cases v) (simp_all add: radiusStep_def workingZMin_def Let_def)

lemma radiiLoop_length: "length (radiiLoop opts zR mn mx zm zx zs) = length zs"
  by (induction zs arbitrary: zm zx) (simp_all split: prod.splits)

text \<open>
  The radius at an index depends on the value at that index only: the assignments to
  \<^verbatim>\<open>zMin\<close> in earlier turns do not change the working minimum.
\<close>

lemma radiiLoop_nth:
  "i < length zs \<Longrightarrow>
     radiiLoop opts zR mn mx zm zx zs ! i =
       (case zs ! i of
          None \<Rightarrow> None
        | Some x \<Rightarrow>
            if workingValue opts x < workingZMin opts zm then Some (mn / 2 - 1)
            else Some (sizedRadius opts zR mn mx (workingZMin opts zm) (workingValue opts x)))"
proof (induction zs arbitrary: i zm zx)
  case Nil
  then show ?case by simp
next
  case (Cons v vs)
  obtain r zm1 zx1 where st: "radiusStep opts zR mn mx zm zx v = (r, zm1, zx1)"
    by (cases "radiusStep opts zR mn mx zm zx v") auto
  have wz: "workingZMin opts zm1 = workingZMin opts zm"
    using radiusStep_zmin [of opts zR mn mx zm zx v] st by simp
  show ?case
  proof (cases i)
    case 0
    show ?thesis
    proof (cases v)
      case None
      with 0 st show ?thesis by (simp add: radiusStep_None)
    next
      case (Some x)
      with 0 st radiusStep_Some [of opts zR mn mx zm zx x] show ?thesis by simp
    qed
  next
    case (Suc j)
    with Cons.prems have "j < length vs" by simp
    from Cons.IH [OF this, of zm1 zx1] Suc st wz show ?thesis
      by (simp split: option.splits)
  qed
qed

lemma getRadii_nth:
  "i < length zs \<Longrightarrow>
     getRadii opts zs zmin zmax mn mx ! i =
       (case zs ! i of
          None \<Rightarrow> None
        | Some x \<Rightarrow>
            if workingValue opts x < workingZMin opts zmin then Some (mn / 2 - 1)
            else Some (sizedRadius opts (double (zmax - zmin)) mn mx (workingZMin opts zmin)
                         (workingValue opts x)))"
  by (simp add: getRadii_def radiiLoop_nth)

lemma getRadii_length: "length (getRadii opts zs zmin zmax mn mx) = length zs"
  by (simp add: getRadii_def radiiLoop_length)

text \<open>
  Without \<^verbatim>\<open>sizeByAbsoluteValue\<close>, a value that is not below \<^verbatim>\<open>zMin\<close> gets the radius
  \<^verbatim>\<open>ceil(minPx + pos * (maxPx - minPx)) / 2\<close> with \<open>pos\<close> the value minus \<^verbatim>\<open>zMin\<close> over
  \<^verbatim>\<open>zMax - zMin\<close>, or 0.5 when that range is not positive, and its square root unless
  \<^verbatim>\<open>sizeBy\<close> is \<^verbatim>\<open>'width'\<close>, in the arithmetic of doubles.
\<close>

lemma getRadii_plain_formula:
  assumes "\<not> sizeByAbsoluteValue opts"
    and "i < length zs" and "zs ! i = Some z" and "\<not> z < zmin"
  shows "getRadii opts zs zmin zmax minPx maxPx ! i =
     Some (of_int \<lceil>double (minPx + double (
        (let pos = (if double (zmax - zmin) > 0
                    then double (double (z - zmin) / double (zmax - zmin))
                    else 0.5)
         in if sizeBy opts \<noteq> ''width'' then double (sqrt pos) else pos)
        * double (maxPx - minPx)))\<rceil> / 2)"
proof -
  have "0 \<le> double (z - zmin)" using assms(4) by (intro double_nonneg) simp
  then have "0 \<le> double (double (z - zmin) / double (zmax - zmin))"
    if "double (zmax - zmin) > 0"
    using that by (intro double_nonneg) simp
  then show ?thesis
    using assms by (simp add: getRadii_nth sizedRadius_def workingValue_def workingZMin_def Let_def)
qed

text \<open>
  The rounding is visible in the result: for \<open>z = 9\<close> in the range 0 to 14 with sizes
  8 to 92 by width, the exact value under \<^verbatim>\<open>Math.ceil\<close> would be 62; the doubles give
  \<open>8725724278030337 / 2^47\<close>, just above 62, and the radius is 31.5.
\<close>

lemma ulpExp_eval:
  assumes "2 powi k \<le> \<bar>x\<bar>" and "\<bar>x\<bar> < 2 powi (k + 1)" and "- 1022 \<le> k"
  shows "ulpExp x = k - 52"
proof -
  have x: "0 < \<bar>x\<bar>" using assms(1) by (smt (verit) zero_less_power_int)
  have "2 powr real_of_int k \<le> \<bar>x\<bar>" "\<bar>x\<bar> < 2 powr real_of_int (k + 1)"
    using assms(1,2) by (simp_all only: powr_real_of_int' [of 2, simplified])
  then have "\<lfloor>log 2 \<bar>x\<bar>\<rfloor> = k"
    using floor_log_eq_powr_iff [of "\<bar>x\<bar>" 2 k] x by simp
  with assms(3) show ?thesis by (simp add: ulpExp_def)
qed

lemma double_eval:
  assumes "2 powi k \<le> \<bar>x\<bar>" and "\<bar>x\<bar> < 2 powi (k + 1)" and "- 1022 \<le> k"
  shows "double x = of_int (roundEven (x / 2 powi (k - 52))) * 2 powi (k - 52)"
proof -
  have "x \<noteq> 0" using assms(1) by (smt (verit) zero_less_power_int)
  then show ?thesis using ulpExp_eval [OF assms] by (simp add: double_def)
qed

lemma getRadii_rounds_up:
  "getRadii exOptions [Some 9] 0 14 8 92 = [Some (63 / 2)]"
proof -
  have d1: "double (9 / 14) = 5790342378047781 / 2 ^ 53"
    using double_eval [of "- 1" "9 / 14"]
    by (simp add: power_int_minus roundEven_def Let_def field_simps)
  have d2: "double (5790342378047781 / 2 ^ 53 * 84) = 7599824371187713 / 2 ^ 47"
    using double_eval [of 5 "5790342378047781 / 2 ^ 53 * 84"]
    by (simp add: power_int_minus roundEven_def Let_def field_simps)
  have d3: "double (8 + 7599824371187713 / 2 ^ 47) = 8725724278030337 / 2 ^ 47"
    using double_eval [of 5 "8 + 7599824371187713 / 2 ^ 47"]
    by (simp add: power_int_minus roundEven_def Let_def field_simps)
  have "double (8 + double (double (9 / 14) * 84)) = 8725724278030337 / 2 ^ 47"
    by (simp only: d1 d2 d3)
  moreover have "\<lceil>8725724278030337 / 2 ^ 47 :: real\<rceil> = 63" by simp
  moreover have "getRadii exOptions [Some 9] 0 14 8 92 =
     [Some (of_int \<lceil>double (8 + double (double (9 / 14) * 84))\<rceil> / 2)]"
    by (simp add: getRadii_def radiusStep_def exOptions_def double_nonneg)
  ultimately show ?thesis by (simp only:) simp
qed

text \<open>
  Claim C2. Under \<^verbatim>\<open>sizeByAbsoluteValue\<close> the radius is not the one of the claim: the
  divisor is \<^verbatim>\<open>zRange\<close>, computed from the arguments before the loop, and not the range
  of the remapped \<^verbatim>\<open>zMin\<close> and \<^verbatim>\<open>zMax\<close> (the defect of claim C4). With threshold 4,
  range 0 to 8 and sizes 10 to 50 by width, the values 0 and 8 have the working value 4 in
  the working range 0 to 4: the code divides by 8 and stores the radius 15, where the
  formula of the claim gives 25.
\<close>

theorem getRadii_sized_absolute_diverges:
  "getRadii thresholdOpts [Some 0, Some 4, Some 8] 0 8 10 50 = [Some 15, Some 5, Some 15] \<and>
   of_int \<lceil>10 + (\<bar>8 - 4\<bar> - 0) / (max (8 - 4) \<bar>0 - 4\<bar> - 0) * (50 - 10 :: real)\<rceil> / 2 = (25 :: real)"
  by (simp add: getRadii_def radiusStep_def thresholdOpts_def absOpts_def)

text \<open>
  Claim C4. Under \<^verbatim>\<open>sizeByAbsoluteValue\<close> the value is replaced by its distance to the
  threshold and \<^verbatim>\<open>zMin\<close> by 0, and \<^verbatim>\<open>zMax\<close> is assigned
  \<^verbatim>\<open>max(zMax - zThreshold, |zMin - zThreshold|)\<close>; but the divisor \<^verbatim>\<open>zRange\<close> was computed
  before the loop and is not computed again, and the new \<^verbatim>\<open>zMax\<close> is never read. With
  threshold 0, range \<open>-10 .. 10\<close> and sizes 10 to 50 by width, the values \<open>-10\<close> and
  \<open>10\<close> get the radius 15 (position \<open>10 / 20\<close>); with the divisor \<open>10 - 0\<close> of the
  remapped range the radius would be 25.
\<close>

theorem getRadii_absolute_stale_range:
  "getRadii absOpts [Some (- 10), Some 0, Some 10] (- 10) 10 10 50 = [Some 15, Some 5, Some 15] \<and>
   of_int \<lceil>10 + (\<bar>10 - 0\<bar> - 0) / (max (10 - 0) \<bar>- 10 - 0\<bar> - 0) * (50 - 10 :: real)\<rceil> / 2 = (25 :: real)"
  by (simp add: getRadii_def radiusStep_def absOpts_def)

lemma sizedRadius_mono:
  assumes "mn \<le> mx" and "wz \<le> v1" and "v1 \<le> v2"
  shows "sizedRadius opts zR mn mx wz v1 \<le> sizedRadius opts zR mn mx wz v2"
proof (cases "zR > 0")
  case False
  then show ?thesis by (simp add: sizedRadius_def)
next
  case True
  let ?p1 = "double (double (v1 - wz) / zR)" and ?p2 = "double (double (v2 - wz) / zR)"
  have d: "0 \<le> double (v1 - wz)" "double (v1 - wz) \<le> double (v2 - wz)"
    using assms(2,3) by (simp_all add: double_nonneg double_mono)
  then have "0 \<le> double (v1 - wz) / zR" "double (v1 - wz) / zR \<le> double (v2 - wz) / zR"
    using True by (simp_all add: divide_right_mono)
  then have p: "0 \<le> ?p1" "?p1 \<le> ?p2" by (simp_all add: double_nonneg double_mono)
  then have p2: "0 \<le> ?p2" by linarith
  define q1 where "q1 = (if sizeBy opts \<noteq> ''width'' then double (sqrt ?p1) else ?p1)"
  define q2 where "q2 = (if sizeBy opts \<noteq> ''width'' then double (sqrt ?p2) else ?p2)"
  have "q1 \<le> q2" using p by (simp add: q1_def q2_def double_mono)
  moreover have "0 \<le> double (mx - mn)" using assms(1) by (simp add: double_nonneg)
  ultimately have "q1 * double (mx - mn) \<le> q2 * double (mx - mn)" by (rule mult_right_mono)
  then have "double (q1 * double (mx - mn)) \<le> double (q2 * double (mx - mn))"
    by (rule double_mono)
  then have "double (mn + double (q1 * double (mx - mn)))
               \<le> double (mn + double (q2 * double (mx - mn)))"
    by (intro double_mono) simp
  then have "\<lceil>double (mn + double (q1 * double (mx - mn)))\<rceil>
               \<le> \<lceil>double (mn + double (q2 * double (mx - mn)))\<rceil>"
    by (rule ceiling_mono)
  then have "(of_int \<lceil>double (mn + double (q1 * double (mx - mn)))\<rceil> :: real) / 2
               \<le> of_int \<lceil>double (mn + double (q2 * double (mx - mn)))\<rceil> / 2"
    by simp
  moreover have "sizedRadius opts zR mn mx wz v1 =
                   of_int \<lceil>double (mn + double (q1 * double (mx - mn)))\<rceil> / 2"
    using True p(1) by (simp add: sizedRadius_def q1_def Let_def)
  moreover have "sizedRadius opts zR mn mx wz v2 =
                   of_int \<lceil>double (mn + double (q2 * double (mx - mn)))\<rceil> / 2"
    using True p2 by (simp add: sizedRadius_def q2_def Let_def)
  ultimately show ?thesis by simp
qed

text \<open>
  Claim C6, as stated, fails: under \<^verbatim>\<open>sizeByAbsoluteValue\<close> the radius grows with the
  distance to the threshold, so below the threshold a smaller z has the larger radius.
  With threshold 0 and range \<open>-10 .. 10\<close>, the value \<open>-5\<close> gets the radius 10 and the
  value 0 the radius 5.
\<close>

theorem getRadii_monotone_counterexample:
  "getRadii absOpts [Some (- 5), Some 0] (- 10) 10 10 50 = [Some 10, Some 5] \<and>
   (- 5 :: real) < 0 \<and> (- 10 :: real) \<le> - 5 \<and> (0 :: real) \<le> 10 \<and> (10 :: real) \<le> 50 \<and>
   \<not> (10 :: real) \<le> 5"
  by (simp add: getRadii_def radiusStep_def absOpts_def)

text \<open>
  Claim C6, amended. For a positive range \<^verbatim>\<open>zMax - zMin\<close> and \<^verbatim>\<open>minPx <= maxPx\<close>, two
  values \<open>z1 < z2\<close> of \<^verbatim>\<open>zData\<close> within \<open>[zMin, zMax]\<close> get radii \<open>r1 \<le> r2\<close>, provided
  \<^verbatim>\<open>sizeByAbsoluteValue\<close> is off or both values are at or above \<^verbatim>\<open>zThreshold\<close>.
\<close>

theorem getRadii_monotone:
  assumes range: "zmax - zmin > 0" and px: "minPx \<le> maxPx"
    and i: "i < length zs" "zs ! i = Some z1"
    and j: "j < length zs" "zs ! j = Some z2"
    and lt: "z1 < z2" and lo: "zmin \<le> z1" and hi: "z2 \<le> zmax"
    and side: "sizeByAbsoluteValue opts \<Longrightarrow> zThreshold opts \<le> z1"
  shows "\<exists>r1 r2. getRadii opts zs zmin zmax minPx maxPx ! i = Some r1 \<and>
                 getRadii opts zs zmin zmax minPx maxPx ! j = Some r2 \<and> r1 \<le> r2"
proof -
  let ?wz = "workingZMin opts zmin"
  have w: "?wz \<le> workingValue opts z1" "workingValue opts z1 \<le> workingValue opts z2"
  proof -
    show "?wz \<le> workingValue opts z1"
      using lo by (simp add: workingValue_def workingZMin_def)
    show "workingValue opts z1 \<le> workingValue opts z2"
    proof (cases "sizeByAbsoluteValue opts")
      case False
      with lt show ?thesis by (simp add: workingValue_def)
    next
      case True
      with side have "0 \<le> z1 - zThreshold opts" by simp
      then have "0 \<le> double (z1 - zThreshold opts)" by (rule double_nonneg)
      moreover have "double (z1 - zThreshold opts) \<le> double (z2 - zThreshold opts)"
        using lt by (intro double_mono) simp
      ultimately show ?thesis using True by (simp add: workingValue_def)
    qed
  qed
  then have w2: "?wz \<le> workingValue opts z2" by linarith
  have "sizedRadius opts (double (zmax - zmin)) minPx maxPx ?wz (workingValue opts z1)
          \<le> sizedRadius opts (double (zmax - zmin)) minPx maxPx ?wz (workingValue opts z2)"
    using px w by (rule sizedRadius_mono)
  then show ?thesis
    using i j w w2 by (simp add: getRadii_nth)
qed

theorem getRadii_monotone_witness:
  "(10 :: real) - 0 > 0 \<and> (10 :: real) \<le> 50 \<and> \<not> sizeByAbsoluteValue areaOpts \<and>
   (5 / 2 :: real) < 10 \<and> (0 :: real) \<le> 5 / 2 \<and>
   getRadii areaOpts [Some 0, Some (5 / 2), None, Some 10] 0 10 10 50 ! 1 = Some 15 \<and>
   getRadii areaOpts [Some 0, Some (5 / 2), None, Some 10] 0 10 10 50 ! 3 = Some 25 \<and>
   (\<exists>r1 r2. getRadii areaOpts [Some 0, Some (5 / 2), None, Some 10] 0 10 10 50 ! 1 = Some r1 \<and>
        getRadii areaOpts [Some 0, Some (5 / 2), None, Some 10] 0 10 10 50 ! 3 = Some r2 \<and> r1 \<le> r2)"
  using getRadii_monotone [of 0 10 10 50 1 "[Some 0, Some (5 / 2), None, Some 10]" "5 / 2" 3 10 areaOpts]
  by (simp add: getRadii_def radiusStep_def areaOpts_def real_sqrt_divide)

subsection \<open>The two loops of beforePadding\<close>

lemma collectSeries_Inr:
  assumes "collectSeries amin amax (smallestSize ch) s z = Inr (s1, z1)"
  shows "s1 = withSizes ch s"
    and "zData s = [] \<Longrightarrow> z1 = z"
    and "zData s \<noteq> [] \<Longrightarrow>
           z1 = (pick (zMin (options s))
                   (min (fst z) (max (amin (zData s))
                      (if \<not> displayNegative (options s) then zThreshold (options s)
                       else - MAX_VALUE))),
                 pick (zMax (options s)) (max (snd z) (amax (zData s))))"
  using assms
  by (auto simp: collectSeries_def withSizes_def Let_def split: option.splits if_splits)

lemma collectLoop_map:
  "collectLoop amin amax ch ax ss z = Inr (ss1, z1) \<Longrightarrow>
     ss1 = map (\<lambda>s. if isActive ch s \<and> isXAxis ax then withSizes ch s else s) ss"
proof (induction ss arbitrary: z ss1 z1)
  case Nil
  then show ?case by simp
next
  case (Cons s ss)
  show ?case
  proof (cases "isActive ch s \<and> isXAxis ax")
    case True
    with Cons.prems obtain s1 za ss' where
      a: "collectSeries amin amax (smallestSize ch) s z = Inr (s1, za)"
      and b: "collectLoop amin amax ch ax ss za = Inr (ss', z1)" and c: "ss1 = s1 # ss'"
      by (auto simp: smallestSize_def split: sum.splits)
    from collectSeries_Inr(1) [OF a] Cons.IH [OF b] c True show ?thesis by simp
  next
    case False
    with Cons.prems obtain ss' where
      b: "collectLoop amin amax ch ax ss z = Inr (ss', z1)" and c: "ss1 = s # ss'"
      by (auto split: sum.splits)
    from Cons.IH [OF b] c False show ?thesis by auto
  qed
qed

lemma padSeries_Inr:
  assumes "padSeries ax z s px = Inr (s1, px1)"
  shows "s1 = (if isXAxis ax then withRadii z s else s)"
  using assms
  by (auto simp: padSeries_def withRadii_def Let_def split: option.splits if_splits sum.splits)

lemma padAll_map:
  "padAll ch ax z ss px = Inr (ss1, px1) \<Longrightarrow>
     ss1 = map (\<lambda>s. if isActive ch s \<and> isXAxis ax then withRadii z s else s) ss"
proof (induction ss arbitrary: px ss1 px1)
  case Nil
  then show ?case by simp
next
  case (Cons s ss)
  show ?case
  proof (cases "isActive ch s")
    case True
    with Cons.prems obtain s1 pa ss' where
      a: "padSeries ax z s px = Inr (s1, pa)"
      and b: "padAll ch ax z ss pa = Inr (ss', px1)" and c: "ss1 = s1 # ss'"
      by (auto split: sum.splits)
    from padSeries_Inr [OF a] Cons.IH [OF b] c True show ?thesis by simp
  next
    case False
    with Cons.prems obtain ss' where
      b: "padAll ch ax z ss px = Inr (ss', px1)" and c: "ss1 = s # ss'"
      by (auto split: sum.splits)
    from Cons.IH [OF b] c False show ?thesis by simp
  qed
qed

lemma padPoint_bounds:
  "padPoint ax rs dat i px = Inr px1 \<Longrightarrow> fst px1 \<le> fst px \<and> snd px \<le> snd px1"
  by (auto simp: padPoint_def Let_def split: option.splits if_splits)

lemma padLoop_bounds:
  "padLoop ax rs dat n px = Inr px1 \<Longrightarrow> fst px1 \<le> fst px \<and> snd px \<le> snd px1"
proof (induction n arbitrary: px)
  case 0
  then show ?case by simp
next
  case (Suc n)
  then obtain pa where a: "padPoint ax rs dat n px = Inr pa"
    and b: "padLoop ax rs dat n pa = Inr px1"
    by (auto split: sum.splits)
  from padPoint_bounds [OF a] Suc.IH [OF b] show ?case by linarith
qed

lemma padSeries_bounds:
  "padSeries ax z s px = Inr (s1, px1) \<Longrightarrow> fst px1 \<le> fst px \<and> snd px \<le> snd px1"
  by (auto simp: padSeries_def Let_def split: option.splits if_splits sum.splits
           dest: padLoop_bounds)

lemma padAll_bounds:
  "padAll ch ax z ss px = Inr (ss1, px1) \<Longrightarrow> fst px1 \<le> fst px \<and> snd px \<le> snd px1"
proof (induction ss arbitrary: px ss1)
  case Nil
  then show ?case by simp
next
  case (Cons s ss)
  show ?case
  proof (cases "isActive ch s")
    case True
    with Cons.prems obtain s1 pa ss' where
      a: "padSeries ax z s px = Inr (s1, pa)"
      and b: "padAll ch ax z ss pa = Inr (ss', px1)"
      by (auto split: sum.splits)
    from padSeries_bounds [OF a] Cons.IH [OF b] show ?thesis by linarith
  next
    case False
    with Cons.prems obtain ss' where
      b: "padAll ch ax z ss px = Inr (ss', px1)"
      by (auto split: sum.splits)
    from Cons.IH [OF b] show ?thesis .
  qed
qed

lemma paddingPasses_bounds:
  "paddingPasses amin amax ch ax ss = Inr (ss1, px) \<Longrightarrow> fst px \<le> 0 \<and> len ax \<le> snd px"
  by (auto simp: paddingPasses_def split: sum.splits dest: padAll_bounds)

subsection \<open>The extension of the axis\<close>

lemma extendSide_Inr:
  "extendSide opt usr transA px v = Inr w \<Longrightarrow>
     w = (if opt = None \<and> usr = None then v + px / transA else v) \<and>
     (opt = None \<and> usr = None \<longrightarrow> transA \<noteq> 0)"
  by (auto simp: extendSide_def pick2_def split: option.splits if_splits)

lemma padAxis_Inr:
  assumes "padAxis ax active px = Inr ax2"
  shows "if active \<and> max_axis ax - min_axis ax > 0 \<and> \<not> isLog ax
     then (let transA = transA0 ax * ((len ax + fst px - (snd px - len ax)) / len ax)
           in ax2 = ax\<lparr>min_axis :=
                        (if min_option ax = None \<and> userMin ax = None
                         then min_axis ax + fst px / transA else min_axis ax),
                      max_axis :=
                        (if max_option ax = None \<and> userMax ax = None
                         then max_axis ax + (snd px - len ax) / transA else max_axis ax)\<rparr>)
     else ax2 = ax"
proof (cases "active \<and> max_axis ax - min_axis ax > 0 \<and> \<not> isLog ax")
  case False
  with assms show ?thesis by (auto simp: padAxis_def)
next
  case True
  let ?t = "transA0 ax * ((len ax + fst px - (snd px - len ax)) / len ax)"
  from assms True obtain mn mx where
    a: "extendSide (min_option ax) (userMin ax) ?t (fst px) (min_axis ax) = Inr mn"
    and b: "extendSide (max_option ax) (userMax ax) ?t (snd px - len ax) (max_axis ax) = Inr mx"
    and c: "ax2 = ax\<lparr>min_axis := mn, max_axis := mx\<rparr>"
    by (auto simp: padAxis_def Let_def split: sum.splits)
  from extendSide_Inr [OF a] extendSide_Inr [OF b] c True show ?thesis
    by (simp add: Let_def)
qed

lemma MAX_VALUE_simps [simp]:
  "x \<le> 2 ^ 64 \<Longrightarrow> min MAX_VALUE x = x"
  "- (2 ^ 64) \<le> x \<Longrightarrow> max x (- MAX_VALUE) = x"
  "- (2 ^ 64) \<le> x \<Longrightarrow> max (- MAX_VALUE) x = x"
  by (simp_all add: MAX_VALUE_def)

lemmas ex_defs = paddingPasses_def beforePadding_def collectSeries_def resolveSize_def pInt_def
  isPercent_def isActive_def exChart_def exAxis_def exSeries_def exOptions_def pick_def pick2_def
  arrayMin_def arrayMax_def toNumber_def padSeries_def getRadii_def radiusStep_def
  padPoint_def transA0_def padAxis_def extendSide_def Let_def

lemma ex_run1:
  "beforePadding arrayMin arrayMax exChart exAxis [exSeries] =
     Inr (exAxis\<lparr>min_axis := - 5 / 2, allowZoomOutside := True\<rparr>,
          [exSeries\<lparr>radii := Some [Some 10, Some 30], minPxSize := Some 20, maxPxSize := Some 60\<rparr>])"
  by (simp add: ex_defs)

text \<open>
  Claim C1, as stated, fails in the factor: with \<open>pxMax\<close> the accumulated value before
  \<^verbatim>\<open>axisLength\<close> is subtracted, \<^verbatim>\<open>(axisLength + pxMin - pxMax) / axisLength\<close> is not the
  factor the code applies. On an axis of length 100 from 0 to 10 the two loops accumulate
  \<open>pxMin = -20\<close> and \<open>pxMax = 100\<close>; the code moves \<^verbatim>\<open>axis.min\<close> to \<open>-20 / 8\<close>, the
  factor being \<open>(100 - 20 - 0) / 100\<close>, where the stated factor \<open>(100 - 20 - 100) / 100\<close>
  would give \<open>-20 / -2\<close>.
\<close>

theorem beforePadding_scale_counterexample:
  "paddingPasses arrayMin arrayMax exChart exAxis [exSeries] =
     Inr ([exSeries\<lparr>radii := Some [Some 10, Some 30], minPxSize := Some 20, maxPxSize := Some 60\<rparr>],
          - 20, 100) \<and>
   beforePadding arrayMin arrayMax exChart exAxis [exSeries] =
     Inr (exAxis\<lparr>min_axis := - 5 / 2, allowZoomOutside := True\<rparr>,
          [exSeries\<lparr>radii := Some [Some 10, Some 30], minPxSize := Some 20, maxPxSize := Some 60\<rparr>]) \<and>
   (0 + (- 20) / (100 / (10 - 0) * ((100 + (- 20) - 100) / 100)) :: real) \<noteq> - 5 / 2"
  by (simp add: ex_defs)

text \<open>
  Claim C1, amended. When \<^verbatim>\<open>beforePadding\<close> returns, the two loops have accumulated
  \<open>pxMin \<le> 0\<close> and \<open>pxMax \<ge> axisLength\<close>. If a series was active, the range
  \<^verbatim>\<open>max - min\<close> is positive and the axis is not logarithmic, then with
  \<open>transA = axisLength / range * (axisLength + pxMin - (pxMax - axisLength)) / axisLength\<close>
  the new \<^verbatim>\<open>axis.min\<close> is \<open>min + pxMin / transA\<close> and the new \<^verbatim>\<open>axis.max\<close> is
  \<open>max + (pxMax - axisLength) / transA\<close>, each only when neither the axis option nor the
  user extreme of that side is set, and the old value otherwise. If no series was active,
  the range is not positive or the axis is logarithmic, both are unchanged.
\<close>

theorem beforePadding_extends_axis:
  assumes "beforePadding amin amax ch ax ss = Inr (ax2, ss2)"
  shows "\<exists>pxMin pxMax.
     paddingPasses amin amax ch ax ss = Inr (ss2, pxMin, pxMax) \<and>
     pxMin \<le> 0 \<and> len ax \<le> pxMax \<and>
     (if list_ex (isActive ch) ss \<and> max_axis ax - min_axis ax > 0 \<and> \<not> isLog ax
      then (let transA = len ax / (max_axis ax - min_axis ax) *
                           ((len ax + pxMin - (pxMax - len ax)) / len ax)
            in min_axis ax2 =
                 (if min_option ax = None \<and> userMin ax = None
                  then min_axis ax + pxMin / transA else min_axis ax) \<and>
               max_axis ax2 =
                 (if max_option ax = None \<and> userMax ax = None
                  then max_axis ax + (pxMax - len ax) / transA else max_axis ax))
      else min_axis ax2 = min_axis ax \<and> max_axis ax2 = max_axis ax)"
proof -
  define ax1 where "ax1 = (if list_ex (isActive ch) ss then ax\<lparr>allowZoomOutside := True\<rparr> else ax)"
  from assms obtain px where
    p: "paddingPasses amin amax ch ax ss = Inr (ss2, px)"
    and q: "padAxis ax1 (list_ex (isActive ch) ss) px = Inr ax2"
    by (auto simp: beforePadding_def Let_def ax1_def split: sum.splits)
  have same: "len ax1 = len ax" "min_axis ax1 = min_axis ax" "max_axis ax1 = max_axis ax"
    "isLog ax1 = isLog ax" "min_option ax1 = min_option ax" "max_option ax1 = max_option ax"
    "userMin ax1 = userMin ax" "userMax ax1 = userMax ax" "transA0 ax1 = transA0 ax"
    by (simp_all add: ax1_def transA0_def)
  from paddingPasses_bounds [OF p] have b: "fst px \<le> 0" "len ax \<le> snd px" by simp_all
  have "if list_ex (isActive ch) ss \<and> max_axis ax - min_axis ax > 0 \<and> \<not> isLog ax
      then (let transA = len ax / (max_axis ax - min_axis ax) *
                           ((len ax + fst px - (snd px - len ax)) / len ax)
            in min_axis ax2 =
                 (if min_option ax = None \<and> userMin ax = None
                  then min_axis ax + fst px / transA else min_axis ax) \<and>
               max_axis ax2 =
                 (if max_option ax = None \<and> userMax ax = None
                  then max_axis ax + (snd px - len ax) / transA else max_axis ax))
      else min_axis ax2 = min_axis ax \<and> max_axis ax2 = max_axis ax"
    using padAxis_Inr [OF q] by (auto simp: same Let_def transA0_def)
  with p b show ?thesis
    by (intro exI [of _ "fst px"] exI [of _ "snd px"]) simp
qed

theorem beforePadding_extends_axis_witness:
  "beforePadding arrayMin arrayMax exChart exAxis [exSeries] =
     Inr (exAxis\<lparr>min_axis := - 5 / 2, allowZoomOutside := True\<rparr>,
          [exSeries\<lparr>radii := Some [Some 10, Some 30], minPxSize := Some 20, maxPxSize := Some 60\<rparr>]) \<and>
   (\<exists>pxMin pxMax.
      paddingPasses arrayMin arrayMax exChart exAxis [exSeries] =
        Inr ([exSeries\<lparr>radii := Some [Some 10, Some 30], minPxSize := Some 20,
                maxPxSize := Some 60\<rparr>], pxMin, pxMax) \<and>
      pxMin \<le> 0 \<and> 100 \<le> pxMax \<and>
      - 5 / 2 = 0 + pxMin / (100 / (10 - 0) * ((100 + pxMin - (pxMax - 100)) / 100)) \<and>
      10 = 10 + (pxMax - 100) / (100 / (10 - 0) * ((100 + pxMin - (pxMax - 100)) / 100)))"
proof -
  note run = ex_run1
  from beforePadding_extends_axis [OF run] obtain pxMin pxMax where
    "paddingPasses arrayMin arrayMax exChart exAxis [exSeries] =
        Inr ([exSeries\<lparr>radii := Some [Some 10, Some 30], minPxSize := Some 20,
                maxPxSize := Some 60\<rparr>], pxMin, pxMax)"
    "pxMin \<le> 0" "len exAxis \<le> pxMax"
    "- 5 / 2 = 0 + pxMin / (100 / (10 - 0) * ((100 + pxMin - (pxMax - 100)) / 100))"
    "10 = 10 + (pxMax - 100) / (100 / (10 - 0) * ((100 + pxMin - (pxMax - 100)) / 100))"
    by (auto simp: exAxis_def exSeries_def exChart_def isActive_def Let_def)
  with run show ?thesis by (auto simp: exAxis_def)
qed

lemma beforePadding_Inr:
  assumes "beforePadding amin amax ch ax ss = Inr (ax2, ss2)"
  obtains px where "paddingPasses amin amax ch ax ss = Inr (ss2, px)"
    and "padAxis (if list_ex (isActive ch) ss then ax\<lparr>allowZoomOutside := True\<rparr> else ax)
           (list_ex (isActive ch) ss) px = Inr ax2"
  using assms by (auto simp: beforePadding_def Let_def split: sum.splits)


subsection \<open>Points that translate does not draw\<close>

lemma translateLoop_length: "length (translateLoop mp rs n ps) = length ps"
  by (induction n arbitrary: ps) simp_all

lemma translateLoop_nth:
  "n \<le> length ps \<Longrightarrow>
     translateLoop mp rs n ps ! i =
       (if i < n then translatePoint mp (radiusAt rs i) (ps ! i) else ps ! i)"
proof (induction n arbitrary: ps)
  case 0
  then show ?case by simp
next
  case (Suc n)
  let ?ps = "ps[n := translatePoint mp (radiusAt rs n) (ps ! n)]"
  from Suc.prems have n: "n < length ps" by simp
  then have "n \<le> length ?ps" by simp
  from Suc.IH [OF this] have
    "translateLoop mp rs n ?ps ! i =
       (if i < n then translatePoint mp (radiusAt rs i) (?ps ! i) else ?ps ! i)" .
  with n show ?case by (auto simp: less_Suc_eq nth_list_update)
qed

lemma translate_nth:
  "i < length (data s) \<Longrightarrow>
     data (translate s) ! i = translatePoint (minPxSize s) (radiusAt (radii s) i) (data s ! i)"
  by (simp add: translate_def translateLoop_nth)

lemma translatePoint_small:
  "r < m / 2 \<Longrightarrow> translatePoint (Some m) (Some r) p = clearShape p"
  by (simp add: translatePoint_def)

lemma below_range_cleared:
  assumes "i < length zs" and "zs ! i = Some z"
    and "workingValue opts z < workingZMin opts zmin"
    and "minPxSize s = Some mn"
    and "radii s = Some (getRadii opts zs zmin zmax mn mx)"
    and "i < length (data s)"
  shows "getRadii opts zs zmin zmax mn mx ! i = Some (mn / 2 - 1)"
    and "data (translate s) ! i = clearShape (data s ! i)"
proof -
  show r: "getRadii opts zs zmin zmax mn mx ! i = Some (mn / 2 - 1)"
    using assms(1-3) by (simp add: getRadii_nth)
  have "radiusAt (radii s) i = Some (mn / 2 - 1)"
    using assms(1,5) r by (simp add: radiusAt_def getRadii_length)
  then show "data (translate s) ! i = clearShape (data s ! i)"
    using assms(4,6) by (simp add: translate_nth translatePoint_small)
qed

text \<open>
  Claim C7, amended. A value of \<^verbatim>\<open>zData\<close> that is not \<^verbatim>\<open>null\<close> and whose working value
  is below the working \<^verbatim>\<open>zMin\<close> gets the radius \<^verbatim>\<open>minPx / 2 - 1\<close>, which is below
  \<^verbatim>\<open>minPx / 2\<close>. With these radii and \<^verbatim>\<open>minPxSize = minPx\<close> on the series, as
  \<^verbatim>\<open>beforePadding\<close> leaves them, \<^verbatim>\<open>translate\<close> takes its second branch for the point: it
  sets \<^verbatim>\<open>shapeArgs\<close>, \<^verbatim>\<open>plotY\<close> and \<^verbatim>\<open>dlBox\<close> to \<^verbatim>\<open>undefined\<close> and gives the point no
  marker size, so the point is not drawn.
\<close>

theorem below_range_not_drawn:
  assumes "i < length (zData s)" and "zData s ! i = Some z"
    and "workingValue (options s) z < workingZMin (options s) zmin"
    and "minPxSize s = Some minPx"
    and "radii s = Some (getRadii (options s) (zData s) zmin zmax minPx maxPx)"
    and "i < length (data s)"
  shows "getRadii (options s) (zData s) zmin zmax minPx maxPx ! i = Some (minPx / 2 - 1) \<and>
         minPx / 2 - 1 < minPx / 2 \<and>
         data (translate s) ! i = clearShape (data s ! i)"
  using below_range_cleared [OF assms] by simp

theorem below_range_not_drawn_witness:
  "(0 :: nat) < length (zData exBelow) \<and> zData exBelow ! 0 = Some 1 \<and>
   workingValue (options exBelow) 1 < workingZMin (options exBelow) 5 \<and>
   minPxSize exBelow = Some 20 \<and>
   radii exBelow = Some (getRadii (options exBelow) (zData exBelow) 5 10 20 60) \<and>
   0 < length (data exBelow) \<and>
   getRadii (options exBelow) (zData exBelow) 5 10 20 60 ! 0 = Some 9 \<and>
   data (translate exBelow) ! 0 = clearShape exPoint"
  using below_range_not_drawn [of 0 exBelow 1 5 20 10 60]
  by (simp add: exBelow_def exSeries_def exOptions_def workingValue_def workingZMin_def)

text \<open>
  Claim C7, as stated, fails in its second part. With \<^verbatim>\<open>zMin = 5\<close> and
  \<^verbatim>\<open>minPxSize = 20\<close> the value 1 gets the radius 9; \<^verbatim>\<open>translate\<close> then removes the
  \<^verbatim>\<open>plotY\<close> of the point and sets no marker on it, where the value 10 gets a marker of
  radius 30.
\<close>

theorem below_range_drawn_counterexample:
  "getRadii exOptions [Some 1, Some 10] 5 10 20 60 = [Some 9, Some 30] \<and>
   plotY (data exBelow ! 0) = Some 40 \<and>
   data (translate exBelow) =
     [exPoint\<lparr>plotY := None\<rparr>,
      exPoint\<lparr>marker := Some \<lparr>marker_radius = 30, marker_width = 60, marker_height = 60\<rparr>,
              dlBox := Some \<lparr>box_x = 0, box_y = Some 10, box_width = 60, box_height = 60\<rparr>\<rparr>] \<and>
   plotY (data (translate exBelow) ! 0) = None \<and>
   marker (data (translate exBelow) ! 0) = None"
  by (simp add: exBelow_def exSeries_def exOptions_def exPoint_def getRadii_def radiusStep_def
        translate_def translatePoint_def radiusAt_def clearShape_def)

lemma isActive_withSizes [simp]: "isActive ch (withSizes ch' s) = isActive ch s"
  by (simp add: isActive_def withSizes_def split: option.splits)

lemma withSizes_fields [simp]:
  "options (withSizes ch s) = options s" "zData (withSizes ch s) = zData s"
  "data (withSizes ch s) = data s" "xData (withSizes ch s) = xData s"
  "yData (withSizes ch s) = yData s" "radii (withSizes ch s) = radii s"
  by (simp_all add: withSizes_def split: option.splits)

lemma withRadii_fields [simp]:
  "options (withRadii z s) = options s" "zData (withRadii z s) = zData s"
  "data (withRadii z s) = data s" "xData (withRadii z s) = xData s"
  "yData (withRadii z s) = yData s" "minPxSize (withRadii z s) = minPxSize s"
  "maxPxSize (withRadii z s) = maxPxSize s"
  by (simp_all add: withRadii_def split: option.splits)

lemma isActive_withRadii [simp]: "isActive ch (withRadii z s) = isActive ch s"
  by (simp add: isActive_def withRadii_def split: option.splits)

text \<open>What a run on an X axis leaves on an active series.\<close>

lemma collectSeries_sizes:
  assumes "collectSeries amin amax sm s z = Inr (s1, z1)"
  shows "\<exists>mn mx. resolveSize sm (minSize (options s)) = Some mn \<and>
                 resolveSize sm (maxSize (options s)) = Some mx \<and>
                 s1 = s\<lparr>minPxSize := Some mn, maxPxSize := Some (max mx mn)\<rparr>"
  using assms by (auto simp: collectSeries_def Let_def split: option.splits if_splits)

lemma single_series_run:
  assumes x: "isXAxis ax" and act: "isActive ch s"
    and run: "beforePadding amin amax ch ax [s] = Inr (ax2, ss2)"
  shows "\<exists>mn mx z1.
     collectSeries amin amax (smallestSize ch) s (MAX_VALUE, - MAX_VALUE)
       = Inr (s\<lparr>minPxSize := Some mn, maxPxSize := Some (max mx mn)\<rparr>, z1) \<and>
     ss2 = [s\<lparr>minPxSize := Some mn, maxPxSize := Some (max mx mn),
               radii := Some (getRadii (options s) (zData s) (fst z1) (snd z1) mn (max mx mn))\<rparr>]"
proof -
  from run obtain px where p: "paddingPasses amin amax ch ax [s] = Inr (ss2, px)"
    by (rule beforePadding_Inr)
  from p x act obtain s1 z1 where
    c: "collectSeries amin amax (smallestSize ch) s (MAX_VALUE, - MAX_VALUE) = Inr (s1, z1)"
    and q: "padAll ch ax z1 [s1] (0, len ax) = Inr (ss2, px)"
    by (auto simp: paddingPasses_def smallestSize_def split: sum.splits)
  from collectSeries_sizes [OF c] obtain mn mx where
    s1: "s1 = s\<lparr>minPxSize := Some mn, maxPxSize := Some (max mx mn)\<rparr>" by blast
  have a1: "isActive ch s1" using act by (simp add: s1 isActive_def)
  from q a1 obtain s2 px1 where r: "padSeries ax z1 s1 (0, len ax) = Inr (s2, px1)"
    and ss2: "ss2 = [s2]"
    by (auto split: sum.splits)
  from padSeries_Inr [OF r] x have "s2 = withRadii z1 s1" by simp
  with s1 have "s2 = s\<lparr>minPxSize := Some mn, maxPxSize := Some (max mx mn),
               radii := Some (getRadii (options s) (zData s) (fst z1) (snd z1) mn (max mx mn))\<rparr>"
    by (simp add: withRadii_def)
  with c s1 ss2 show ?thesis by blast
qed

text \<open>
  Claim C5, amended. For a series with \<^verbatim>\<open>displayNegative: false\<close> and no \<^verbatim>\<open>zMin\<close>
  option, the first loop takes the running \<^verbatim>\<open>zMin\<close> to the least of its old value and
  \<^verbatim>\<open>max(arrayMin(zData), zThreshold)\<close>, which is at least \<^verbatim>\<open>zThreshold\<close>. On an X axis
  whose only series this is, the \<^verbatim>\<open>zMin\<close> passed to \<^verbatim>\<open>getRadii\<close> is therefore at least
  \<^verbatim>\<open>zThreshold\<close>. A point with z below the threshold gets a radius that is not
  \<^verbatim>\<open>null\<close>; unless \<^verbatim>\<open>sizeByAbsoluteValue\<close> is set, that radius is
  \<^verbatim>\<open>minPxSize / 2 - 1\<close> and \<^verbatim>\<open>translate\<close> clears the shape of the point: the point is not
  displayed.
\<close>

theorem displayNegative_false_single_series:
  assumes x: "isXAxis ax" and act: "isActive ch s"
    and dn: "\<not> displayNegative (options s)" and nz: "zMin (options s) = None"
    and t: "zThreshold (options s) \<le> MAX_VALUE"
    and run: "beforePadding amin amax ch ax [s] = Inr (ax2, ss2)"
    and i: "i < length (zData s)" "zData s ! i = Some z" and below: "z < zThreshold (options s)"
    and d: "i < length (data s)"
  shows "(\<forall>sm zmin zmax s1 zmin1 zmax1.
        collectSeries amin amax sm s (zmin, zmax) = Inr (s1, zmin1, zmax1) \<longrightarrow>
        zmin1 = min zmin (max (amin (zData s)) (zThreshold (options s)))) \<and>
     zThreshold (options s) \<le> max (amin (zData s)) (zThreshold (options s)) \<and>
     (\<exists>s2 mn mx gmin gmax.
        ss2 = [s2] \<and> minPxSize s2 = Some mn \<and>
        gmin = min MAX_VALUE (max (amin (zData s)) (zThreshold (options s))) \<and>
        zThreshold (options s) \<le> gmin \<and>
        radii s2 = Some (getRadii (options s) (zData s) gmin gmax mn mx) \<and>
        (\<exists>r. getRadii (options s) (zData s) gmin gmax mn mx ! i = Some r) \<and>
        (\<not> sizeByAbsoluteValue (options s) \<longrightarrow>
           getRadii (options s) (zData s) gmin gmax mn mx ! i = Some (mn / 2 - 1) \<and>
           data (translate s2) ! i = clearShape (data s ! i)))"
proof -
  from i have ne: "zData s \<noteq> []" by auto
  have clamp: "zmin1 = min zmin (max (amin (zData s)) (zThreshold (options s)))"
    if "collectSeries amin amax sm s (zmin, zmax) = Inr (s1, zmin1, zmax1)"
    for sm zmin zmax s1 zmin1 zmax1
    using that ne dn nz
    by (auto simp: collectSeries_def Let_def pick_def split: option.splits)
  from single_series_run [OF x act run] obtain mn mx z1 where
    c: "collectSeries amin amax (smallestSize ch) s (MAX_VALUE, - MAX_VALUE)
       = Inr (s\<lparr>minPxSize := Some mn, maxPxSize := Some (max mx mn)\<rparr>, z1)"
    and ss2: "ss2 = [s\<lparr>minPxSize := Some mn, maxPxSize := Some (max mx mn),
               radii := Some (getRadii (options s) (zData s) (fst z1) (snd z1) mn (max mx mn))\<rparr>]"
    by blast
  let ?s2 = "s\<lparr>minPxSize := Some mn, maxPxSize := Some (max mx mn),
               radii := Some (getRadii (options s) (zData s) (fst z1) (snd z1) mn (max mx mn))\<rparr>"
  let ?g = "min MAX_VALUE (max (amin (zData s)) (zThreshold (options s)))"
  from collectSeries_Inr(3) [OF c ne] dn nz have g: "fst z1 = ?g"
    by (simp add: pick_def)
  have tg: "zThreshold (options s) \<le> ?g" using t by simp
  let ?rs = "getRadii (options s) (zData s) ?g (snd z1) mn (max mx mn)"
  have some: "\<exists>r. ?rs ! i = Some r"
    using i by (simp add: getRadii_nth)
  have hidden: "?rs ! i = Some (mn / 2 - 1) \<and> data (translate ?s2) ! i = clearShape (data s ! i)"
    if na: "\<not> sizeByAbsoluteValue (options s)"
  proof -
    have w: "workingValue (options s) z < workingZMin (options s) ?g"
      using na below tg by (simp add: workingValue_def workingZMin_def)
    have "?rs ! i = Some (mn / 2 - 1)"
      and "data (translate ?s2) ! i = clearShape (data ?s2 ! i)"
      using below_range_cleared [of i "zData s" z "options s" ?g ?s2 mn "snd z1" "max mx mn"]
        i w d g by simp_all
    then show ?thesis by simp
  qed
  have "\<exists>s2 mn mx gmin gmax.
        ss2 = [s2] \<and> minPxSize s2 = Some mn \<and>
        gmin = min MAX_VALUE (max (amin (zData s)) (zThreshold (options s))) \<and>
        zThreshold (options s) \<le> gmin \<and>
        radii s2 = Some (getRadii (options s) (zData s) gmin gmax mn mx) \<and>
        (\<exists>r. getRadii (options s) (zData s) gmin gmax mn mx ! i = Some r) \<and>
        (\<not> sizeByAbsoluteValue (options s) \<longrightarrow>
           getRadii (options s) (zData s) gmin gmax mn mx ! i = Some (mn / 2 - 1) \<and>
           data (translate s2) ! i = clearShape (data s ! i))"
    apply (rule exI [of _ ?s2], rule exI [of _ mn], rule exI [of _ "max mx mn"],
           rule exI [of _ ?g], rule exI [of _ "snd z1"])
    using ss2 g tg some hidden by simp
  with clamp show ?thesis by simp
qed

lemma ex_negative_run:
  "beforePadding arrayMin arrayMax exChart exAxis [exNegative] =
     Inr (exAxis\<lparr>min_axis := - 5 / 2, allowZoomOutside := True\<rparr>,
          [exNegative\<lparr>radii := Some [Some 9, Some 30], minPxSize := Some 20, maxPxSize := Some 60\<rparr>])"
  by (simp add: ex_defs exNegative_def)

text \<open>
  Claim C5, as stated, fails in its second part. A series with
  \<^verbatim>\<open>displayNegative: false\<close>, threshold 0 and z values \<open>-5\<close> and 10: \<^verbatim>\<open>beforePadding\<close>
  stores the radii 9 and 30 with \<^verbatim>\<open>minPxSize = 20\<close>, and \<^verbatim>\<open>translate\<close> removes the
  \<^verbatim>\<open>plotY\<close> of the first point and sets no marker on it.
\<close>

theorem displayNegative_false_counterexample:
  "beforePadding arrayMin arrayMax exChart exAxis [exNegative] =
     Inr (exAxis\<lparr>min_axis := - 5 / 2, allowZoomOutside := True\<rparr>,
          [exNegative\<lparr>radii := Some [Some 9, Some 30], minPxSize := Some 20, maxPxSize := Some 60\<rparr>]) \<and>
   zData exNegative ! 0 = Some (- 5) \<and> (- 5 :: real) < zThreshold (options exNegative) \<and>
   plotY (data exNegative ! 0) = Some 40 \<and>
   data (translate (exNegative\<lparr>radii := Some [Some 9, Some 30], minPxSize := Some 20,
                      maxPxSize := Some 60\<rparr>)) ! 0 = exPoint\<lparr>plotY := None\<rparr> \<and>
   marker (exPoint\<lparr>plotY := None\<rparr>) = None"
  using ex_negative_run
  by (simp add: exNegative_def exSeries_def exOptions_def exPoint_def
        translate_def translatePoint_def radiusAt_def clearShape_def)

theorem displayNegative_false_single_series_witness:
  "isXAxis exAxis \<and> isActive exChart exNegative \<and> \<not> displayNegative (options exNegative) \<and>
   zMin (options exNegative) = None \<and> zThreshold (options exNegative) \<le> MAX_VALUE \<and>
   (0 :: nat) < length (zData exNegative) \<and> zData exNegative ! 0 = Some (- 5) \<and>
   (- 5 :: real) < zThreshold (options exNegative) \<and> 0 < length (data exNegative) \<and>
   beforePadding arrayMin arrayMax exChart exAxis [exNegative] =
     Inr (exAxis\<lparr>min_axis := - 5 / 2, allowZoomOutside := True\<rparr>,
          [exNegative\<lparr>radii := Some [Some 9, Some 30], minPxSize := Some 20, maxPxSize := Some 60\<rparr>]) \<and>
   (\<exists>s2. [exNegative\<lparr>radii := Some [Some 9, Some 30], minPxSize := Some 20,
              maxPxSize := Some 60\<rparr>] = [s2] \<and>
         data (translate s2) ! 0 = clearShape (data exNegative ! 0))"
proof -
  have h: "isXAxis exAxis" "isActive exChart exNegative" "\<not> displayNegative (options exNegative)"
    "zMin (options exNegative) = None" "zThreshold (options exNegative) \<le> MAX_VALUE"
    "(0 :: nat) < length (zData exNegative)" "zData exNegative ! 0 = Some (- 5)"
    "(- 5 :: real) < zThreshold (options exNegative)" "0 < length (data exNegative)"
    "\<not> sizeByAbsoluteValue (options exNegative)"
    by (simp_all add: exAxis_def exChart_def exNegative_def exSeries_def exOptions_def
          isActive_def MAX_VALUE_def)
  from displayNegative_false_single_series
    [OF h(1-5) ex_negative_run h(6-9)] h(10)
  have "\<exists>s2. [exNegative\<lparr>radii := Some [Some 9, Some 30], minPxSize := Some 20,
              maxPxSize := Some 60\<rparr>] = [s2] \<and>
         data (translate s2) ! 0 = clearShape (data exNegative ! 0)"
    by blast
  with h ex_negative_run show ?thesis by simp
qed

subsection \<open>The collection pass\<close>

lemma collectLoop_length:
  "collectLoop amin amax ch ax ss z = Inr (ss1, z1) \<Longrightarrow> length ss1 = length ss"
  by (drule collectLoop_map) simp

lemma withSizes_resolved:
  assumes "pInt (minSize (options s)) = Some a" and "pInt (maxSize (options s)) = Some b"
  shows "minPxSize (withSizes ch s) =
           Some (if isPercent (minSize (options s))
                 then min (plotWidth ch) (plotHeight ch) * a / 100 else a)"
    and "maxPxSize (withSizes ch s) =
           Some (max (if isPercent (maxSize (options s))
                      then min (plotWidth ch) (plotHeight ch) * b / 100 else b)
                     (if isPercent (minSize (options s))
                      then min (plotWidth ch) (plotHeight ch) * a / 100 else a))"
  using assms by (simp_all add: withSizes_def resolveSize_def smallestSize_def)

lemma beforePadding_series:
  assumes "beforePadding amin amax ch ax ss = Inr (ax2, ss2)"
  shows "\<exists>z. ss2 = map (\<lambda>s. if isActive ch s \<and> isXAxis ax
                             then withRadii z (withSizes ch s) else s) ss"
proof -
  from assms obtain px where "paddingPasses amin amax ch ax ss = Inr (ss2, px)"
    by (rule beforePadding_Inr)
  then obtain ss1 z where c: "collectLoop amin amax ch ax ss (MAX_VALUE, - MAX_VALUE) = Inr (ss1, z)"
    and p: "padAll ch ax z ss1 (0, len ax) = Inr (ss2, px)"
    by (auto simp: paddingPasses_def split: sum.splits)
  from collectLoop_map [OF c] padAll_map [OF p]
  have "ss2 = map (\<lambda>s. if isActive ch s \<and> isXAxis ax
                             then withRadii z (withSizes ch s) else s) ss"
    by (auto simp: comp_def)
  then show ?thesis ..
qed

text \<open>
  Claim C9. On an X axis, for every active series whose \<^verbatim>\<open>minSize\<close> and \<^verbatim>\<open>maxSize\<close>
  parse to the numbers \<open>a\<close> and \<open>b\<close>, \<^verbatim>\<open>beforePadding\<close> leaves on the series
  \<^verbatim>\<open>minPxSize\<close>, the number \<open>a\<close> or, for a percentage,
  \<open>min(plotWidth, plotHeight) * a / 100\<close>, and \<^verbatim>\<open>maxPxSize\<close>, the greater of the resolved
  \<^verbatim>\<open>maxSize\<close> and the resolved \<^verbatim>\<open>minSize\<close>. The witness is the case of the spec:
  \<^verbatim>\<open>"50%"\<close> and \<^verbatim>\<open>"10%"\<close> on a plot area of 200 by 100 give 50 and 50.
\<close>

theorem collection_resolves_sizes:
  assumes x: "isXAxis ax"
    and run: "beforePadding amin amax ch ax ss = Inr (ax2, ss2)"
    and i: "i < length ss" and act: "isActive ch (ss ! i)"
    and a: "pInt (minSize (options (ss ! i))) = Some a"
    and b: "pInt (maxSize (options (ss ! i))) = Some b"
  shows "minPxSize (ss2 ! i) =
           Some (if isPercent (minSize (options (ss ! i)))
                 then min (plotWidth ch) (plotHeight ch) * a / 100 else a) \<and>
         maxPxSize (ss2 ! i) =
           Some (max (if isPercent (maxSize (options (ss ! i)))
                      then min (plotWidth ch) (plotHeight ch) * b / 100 else b)
                     (if isPercent (minSize (options (ss ! i)))
                      then min (plotWidth ch) (plotHeight ch) * a / 100 else a))"
proof -
  from beforePadding_series [OF run] obtain z where
    "ss2 = map (\<lambda>s. if isActive ch s \<and> isXAxis ax then withRadii z (withSizes ch s) else s) ss"
    by blast
  with i x act have "ss2 ! i = withRadii z (withSizes ch (ss ! i))" by simp
  with withSizes_resolved [OF a b, of ch] show ?thesis by simp
qed

lemma ex_percent_run:
  "beforePadding arrayMin arrayMax exChart exAxis [exPercent] =
     Inr (exAxis\<lparr>min_axis := - 10 / 3, allowZoomOutside := True\<rparr>,
          [exPercent\<lparr>radii := Some [Some 25, Some 25], minPxSize := Some 50, maxPxSize := Some 50\<rparr>])"
  by (simp add: ex_defs exPercent_def isSpace_def isDigit_def digitsValue_def)

theorem collection_resolves_sizes_witness:
  "isXAxis exAxis \<and> (0 :: nat) < length [exPercent] \<and> isActive exChart ([exPercent] ! 0) \<and>
   pInt (minSize (options ([exPercent] ! 0))) = Some 50 \<and>
   pInt (maxSize (options ([exPercent] ! 0))) = Some 10 \<and>
   isPercent (minSize (options exPercent)) \<and> isPercent (maxSize (options exPercent)) \<and>
   plotWidth exChart = 200 \<and> plotHeight exChart = 100 \<and>
   beforePadding arrayMin arrayMax exChart exAxis [exPercent] =
     Inr (exAxis\<lparr>min_axis := - 10 / 3, allowZoomOutside := True\<rparr>,
          [exPercent\<lparr>radii := Some [Some 25, Some 25], minPxSize := Some 50, maxPxSize := Some 50\<rparr>]) \<and>
   minPxSize ([exPercent\<lparr>radii := Some [Some 25, Some 25], minPxSize := Some 50,
                 maxPxSize := Some 50\<rparr>] ! 0) = Some (min 200 100 * 50 / 100) \<and>
   maxPxSize ([exPercent\<lparr>radii := Some [Some 25, Some 25], minPxSize := Some 50,
                 maxPxSize := Some 50\<rparr>] ! 0) = Some (max (min 200 100 * 10 / 100) (min 200 100 * 50 / 100)) \<and>
   (min 200 100 * 50 / 100 :: real) = 50 \<and>
   max (min 200 100 * 10 / 100) (min 200 100 * 50 / 100 :: real) = 50"
proof -
  have h: "isXAxis exAxis" "(0 :: nat) < length [exPercent]" "isActive exChart ([exPercent] ! 0)"
    "pInt (minSize (options ([exPercent] ! 0))) = Some 50"
    "pInt (maxSize (options ([exPercent] ! 0))) = Some 10"
    by (simp_all add: exAxis_def exChart_def exPercent_def exSeries_def exOptions_def
          isActive_def pInt_def isSpace_def isDigit_def digitsValue_def)
  have p: "isPercent (minSize (options exPercent))" "isPercent (maxSize (options exPercent))"
    "plotWidth exChart = 200" "plotHeight exChart = 100"
    by (simp_all add: exPercent_def exSeries_def exOptions_def isPercent_def exChart_def)
  from collection_resolves_sizes [OF h(1) ex_percent_run h(2-5)] p
  have "minPxSize ([exPercent\<lparr>radii := Some [Some 25, Some 25], minPxSize := Some 50,
                 maxPxSize := Some 50\<rparr>] ! 0) = Some (min 200 100 * 50 / 100) \<and>
   maxPxSize ([exPercent\<lparr>radii := Some [Some 25, Some 25], minPxSize := Some 50,
                 maxPxSize := Some 50\<rparr>] ! 0) = Some (max (min 200 100 * 10 / 100) (min 200 100 * 50 / 100))"
    by simp
  with h p ex_percent_run show ?thesis by simp
qed

lemma collectLoop_append:
  "collectLoop amin amax ch ax (xs @ ys) z =
     (case collectLoop amin amax ch ax xs z of
        Inl e \<Rightarrow> Inl e
      | Inr (xs1, z1) \<Rightarrow>
          (case collectLoop amin amax ch ax ys z1 of
             Inl e \<Rightarrow> Inl e
           | Inr (ys1, z2) \<Rightarrow> Inr (xs1 @ ys1, z2)))"
  by (induction xs arbitrary: z) (auto split: sum.splits)

lemma collectLoop_empty_zData:
  assumes "zData s = []" and "collectLoop amin amax ch ax (s # ss) z = Inr (r, z1)"
  shows "\<exists>r'. collectLoop amin amax ch ax ss z = Inr (r', z1)"
proof (cases "isActive ch s \<and> isXAxis ax")
  case True
  with assms(2) obtain s1 za ss' where
    a: "collectSeries amin amax (smallestSize ch) s z = Inr (s1, za)"
    and b: "collectLoop amin amax ch ax ss za = Inr (ss', z1)"
    by (auto simp: smallestSize_def split: sum.splits)
  from collectSeries_Inr(2) [OF a assms(1)] b show ?thesis by auto
next
  case False
  with assms(2) show ?thesis by (auto split: sum.splits)
qed

lemma padPoint_fault: "padPoint ax (Some l) dat i px = Inl e \<Longrightarrow> e = NotFinite"
  by (auto simp: padPoint_def Let_def split: option.splits if_splits)

lemma padLoop_fault: "padLoop ax (Some l) dat n px = Inl e \<Longrightarrow> e = NotFinite"
proof (induction n arbitrary: px)
  case 0
  then show ?case by simp
next
  case (Suc n)
  show ?case
  proof (cases "padPoint ax (Some l) dat n px")
    case (Inl e')
    with Suc.prems padPoint_fault [OF Inl] show ?thesis by simp
  next
    case (Inr px1)
    with Suc.prems have "padLoop ax (Some l) dat n px1 = Inl e" by simp
    then show ?thesis by (rule Suc.IH)
  qed
qed

lemma padSeries_fault:
  assumes "isXAxis ax \<or> radii s \<noteq> None" and "padSeries ax z s px = Inl e"
  shows "e = NotFinite"
  using assms
  by (auto simp: padSeries_def Let_def split: option.splits sum.splits if_splits
           dest: padLoop_fault)

lemma padAll_fault:
  "isXAxis ax \<or> (\<forall>s \<in> set ss. radii s \<noteq> None) \<Longrightarrow> padAll ch ax z ss px = Inl e
     \<Longrightarrow> e = NotFinite"
proof (induction ss arbitrary: px)
  case Nil
  then show ?case by simp
next
  case (Cons s ss)
  from Cons.prems(1) have r: "isXAxis ax \<or> radii s \<noteq> None"
    and rs: "isXAxis ax \<or> (\<forall>s \<in> set ss. radii s \<noteq> None)" by auto
  show ?case
  proof (cases "isActive ch s")
    case True
    show ?thesis
    proof (cases "padSeries ax z s px")
      case (Inl e')
      with Cons.prems(2) True padSeries_fault [OF r Inl] show ?thesis by simp
    next
      case (Inr q)
      obtain s1 px1 where q: "q = (s1, px1)" by (cases q)
      with Cons.prems(2) True Inr have "padAll ch ax z ss px1 = Inl e"
        by (auto split: sum.splits)
      with rs show ?thesis by (rule Cons.IH)
    qed
  next
    case False
    with Cons.prems(2) have "padAll ch ax z ss px = Inl e"
      by (auto split: sum.splits)
    with rs show ?thesis by (rule Cons.IH)
  qed
qed

lemma collectSeries_fault: "collectSeries amin amax sm s z = Inl e \<Longrightarrow> e = NotFinite"
  by (auto simp: collectSeries_def Let_def split: option.splits if_splits)

lemma collectLoop_fault: "collectLoop amin amax ch ax ss z = Inl e \<Longrightarrow> e = NotFinite"
proof (induction ss arbitrary: z)
  case Nil
  then show ?case by simp
next
  case (Cons s ss)
  show ?case
  proof (cases "isActive ch s \<and> isXAxis ax")
    case True
    show ?thesis
    proof (cases "collectSeries amin amax (min (plotWidth ch) (plotHeight ch)) s z")
      case (Inl e')
      with Cons.prems True collectSeries_fault [OF Inl] show ?thesis by simp
    next
      case (Inr q)
      obtain s1 z1 where q: "q = (s1, z1)" by (cases q)
      with Cons.prems True Inr have "collectLoop amin amax ch ax ss z1 = Inl e"
        by (auto split: sum.splits)
      then show ?thesis by (rule Cons.IH)
    qed
  next
    case False
    with Cons.prems have "collectLoop amin amax ch ax ss z = Inl e"
      by (auto split: sum.splits)
    then show ?thesis by (rule Cons.IH)
  qed
qed

lemma padAxis_fault: "padAxis ax active px = Inl e \<Longrightarrow> e = NotFinite"
  by (auto simp: padAxis_def extendSide_def Let_def split: sum.splits if_splits)

lemma paddingPasses_fault:
  assumes "isXAxis ax \<or> (\<forall>s \<in> set ss. radii s \<noteq> None)"
    and "paddingPasses amin amax ch ax ss = Inl e"
  shows "e = NotFinite"
proof (cases "collectLoop amin amax ch ax ss (MAX_VALUE, - MAX_VALUE)")
  case (Inl e')
  with assms(2) collectLoop_fault [OF Inl] show ?thesis by (simp add: paddingPasses_def)
next
  case (Inr r)
  obtain ss1 z where r: "r = (ss1, z)" by (cases r)
  from collectLoop_map Inr r have
    "ss1 = map (\<lambda>s. if isActive ch s \<and> isXAxis ax then withSizes ch s else s) ss" by blast
  with assms(1) have "isXAxis ax \<or> (\<forall>s \<in> set ss1. radii s \<noteq> None)" by auto
  moreover from assms(2) Inr r have "padAll ch ax z ss1 (0, len ax) = Inl e"
    by (simp add: paddingPasses_def)
  ultimately show ?thesis by (rule padAll_fault)
qed

lemma beforePadding_no_TypeError:
  assumes "isXAxis ax \<or> (\<forall>s \<in> set ss. radii s \<noteq> None)"
  shows "beforePadding amin amax ch ax ss \<noteq> Inl TypeError"
proof
  assume te: "beforePadding amin amax ch ax ss = Inl TypeError"
  show False
  proof (cases "paddingPasses amin amax ch ax ss")
    case (Inl e)
    with te paddingPasses_fault [OF assms Inl] show False
      by (simp add: beforePadding_def)
  next
    case (Inr r)
    obtain ss1 px where r: "r = (ss1, px)" by (cases r)
    with te Inr show False
      by (auto simp: beforePadding_def Let_def split: sum.splits dest: padAxis_fault)
  qed
qed

text \<open>
  Claim C10, amended. A series with an empty \<^verbatim>\<open>zData\<close> leaves the running \<^verbatim>\<open>zMin\<close> and
  \<^verbatim>\<open>zMax\<close> of the first loop as they are: the loop ends with the same extremes as on
  the list without that series. Whatever the z data, \<^verbatim>\<open>beforePadding\<close> throws no
  \<^verbatim>\<open>TypeError\<close> on an X axis, nor on another axis when every series has its \<^verbatim>\<open>radii\<close>.
\<close>

theorem empty_zData_skipped:
  assumes "zData s = []"
    and "collectLoop amin amax ch ax (ss1 @ s # ss2) z = Inr (r, z1)"
  shows "(\<exists>r'. collectLoop amin amax ch ax (ss1 @ ss2) z = Inr (r', z1)) \<and>
         (isXAxis ax \<or> (\<forall>t \<in> set (ss1 @ s # ss2). radii t \<noteq> None)
            \<longrightarrow> beforePadding amin amax ch ax (ss1 @ s # ss2) \<noteq> Inl TypeError)"
proof -
  from assms(2) obtain xs1 za r2 where
    a: "collectLoop amin amax ch ax ss1 z = Inr (xs1, za)"
    and b: "collectLoop amin amax ch ax (s # ss2) za = Inr (r2, z1)"
    by (auto simp: collectLoop_append split: sum.splits)
  from collectLoop_empty_zData [OF assms(1) b] obtain r' where
    "collectLoop amin amax ch ax ss2 za = Inr (r', z1)" by blast
  with a have "collectLoop amin amax ch ax (ss1 @ ss2) z = Inr (xs1 @ r', z1)"
    by (simp add: collectLoop_append)
  then show ?thesis
    using beforePadding_no_TypeError [of ax "ss1 @ s # ss2" amin amax ch] by blast
qed

lemma ex_empty_collect:
  "collectLoop arrayMin arrayMax exChart exAxis ([exSeries] @ exEmpty # []) (MAX_VALUE, - MAX_VALUE) =
     Inr ([exSeries\<lparr>minPxSize := Some 20, maxPxSize := Some 60\<rparr>,
           exEmpty\<lparr>minPxSize := Some 20, maxPxSize := Some 60\<rparr>], 0, 1)"
  by (simp add: ex_defs exEmpty_def)

theorem empty_zData_skipped_witness:
  "zData exEmpty = [] \<and>
   collectLoop arrayMin arrayMax exChart exAxis ([exSeries] @ exEmpty # []) (MAX_VALUE, - MAX_VALUE) =
     Inr ([exSeries\<lparr>minPxSize := Some 20, maxPxSize := Some 60\<rparr>,
           exEmpty\<lparr>minPxSize := Some 20, maxPxSize := Some 60\<rparr>], 0, 1) \<and>
   (\<exists>r'. collectLoop arrayMin arrayMax exChart exAxis ([exSeries] @ []) (MAX_VALUE, - MAX_VALUE) =
           Inr (r', 0, 1)) \<and>
   isXAxis exAxis \<and>
   beforePadding arrayMin arrayMax exChart exAxis ([exSeries] @ exEmpty # []) \<noteq> Inl TypeError"
proof -
  have e: "zData exEmpty = []" by (simp add: exEmpty_def)
  have x: "isXAxis exAxis" by (simp add: exAxis_def)
  from empty_zData_skipped [OF e ex_empty_collect] x e ex_empty_collect
  show ?thesis by blast
qed

text \<open>
  Claim C10, as stated, fails for a series whose z values are all \<^verbatim>\<open>null\<close>: the test of
  the first loop is on \<^verbatim>\<open>zData.length\<close>, so such a series is not skipped. With the
  options \<^verbatim>\<open>zMin: 5\<close> and \<^verbatim>\<open>zMax: 7\<close> on it the loop ends with the extremes 5 and 7,
  where without the series it ends with 0 and 1; the radii of the other series and the
  padding of the axis change with them.
\<close>

theorem all_null_zData_counterexample:
  "zData exAllNull = [None, None] \<and>
   collectLoop arrayMin arrayMax exChart exAxis [exSeries, exAllNull] (MAX_VALUE, - MAX_VALUE) =
     Inr ([exSeries\<lparr>minPxSize := Some 20, maxPxSize := Some 60\<rparr>,
           exAllNull\<lparr>minPxSize := Some 20, maxPxSize := Some 60\<rparr>], 5, 7) \<and>
   collectLoop arrayMin arrayMax exChart exAxis [exSeries] (MAX_VALUE, - MAX_VALUE) =
     Inr ([exSeries\<lparr>minPxSize := Some 20, maxPxSize := Some 60\<rparr>], 0, 1) \<and>
   (5 :: real) \<noteq> 0 \<and> (7 :: real) \<noteq> 1 \<and>
   beforePadding arrayMin arrayMax exChart exAxis [exSeries, exAllNull] =
     Inr (exAxis\<lparr>min_axis := - 90 / 91, allowZoomOutside := True\<rparr>,
          [exSeries\<lparr>radii := Some [Some 9, Some 9], minPxSize := Some 20, maxPxSize := Some 60\<rparr>,
           exAllNull\<lparr>radii := Some [None, None], minPxSize := Some 20, maxPxSize := Some 60\<rparr>]) \<and>
   beforePadding arrayMin arrayMax exChart exAxis [exSeries] =
     Inr (exAxis\<lparr>min_axis := - 5 / 2, allowZoomOutside := True\<rparr>,
          [exSeries\<lparr>radii := Some [Some 10, Some 30], minPxSize := Some 20, maxPxSize := Some 60\<rparr>])"
  by (simp add: ex_defs exAllNull_def)

subsection \<open>Points without a z value in the padding loop\<close>

lemma getRadii_append:
  "getRadii opts (xs @ ys) zmin zmax mn mx =
     getRadii opts xs zmin zmax mn mx @ getRadii opts ys zmin zmax mn mx"
proof (rule nth_equalityI)
  show "length (getRadii opts (xs @ ys) zmin zmax mn mx) =
        length (getRadii opts xs zmin zmax mn mx @ getRadii opts ys zmin zmax mn mx)"
    by (simp add: getRadii_length)
next
  fix i assume "i < length (getRadii opts (xs @ ys) zmin zmax mn mx)"
  then have i: "i < length xs + length ys" by (simp add: getRadii_length)
  show "getRadii opts (xs @ ys) zmin zmax mn mx ! i =
        (getRadii opts xs zmin zmax mn mx @ getRadii opts ys zmin zmax mn mx) ! i"
  proof (cases "i < length xs")
    case True
    then show ?thesis by (simp add: getRadii_nth getRadii_length nth_append)
  next
    case False
    with i have "i - length xs < length ys" by simp
    with False i show ?thesis by (simp add: getRadii_nth getRadii_length nth_append)
  qed
qed

lemma getRadii_null: "getRadii opts [None] zmin zmax mn mx = [None]"
  by (simp add: getRadii_def radiusStep_def)

lemma padPoint_prefix:
  "length rs1 = length d1 \<Longrightarrow> i < length d1 \<Longrightarrow>
     padPoint ax (Some (rs1 @ rs2)) (d1 @ d2) i px = padPoint ax (Some rs1) d1 i px"
  by (auto simp: padPoint_def nth_append Let_def split: option.splits)

lemma padLoop_prefix:
  "length rs1 = length d1 \<Longrightarrow> n \<le> length d1 \<Longrightarrow>
     padLoop ax (Some (rs1 @ rs2)) (d1 @ d2) n px = padLoop ax (Some rs1) d1 n px"
proof (induction n arbitrary: px)
  case 0
  then show ?case by simp
next
  case (Suc n)
  then have "padPoint ax (Some (rs1 @ rs2)) (d1 @ d2) n px = padPoint ax (Some rs1) d1 n px"
    by (simp add: padPoint_prefix)
  with Suc show ?case by (simp split: sum.splits)
qed

lemma padPoint_suffix:
  "length rs1 = length d1 \<Longrightarrow>
     padPoint ax (Some (rs1 @ rs2)) (d1 @ d2) (length d1 + k) px = padPoint ax (Some rs2) d2 k px"
  by (auto simp: padPoint_def nth_append Let_def split: option.splits)

lemma padLoop_append:
  "length rs1 = length d1 \<Longrightarrow>
     padLoop ax (Some (rs1 @ rs2)) (d1 @ d2) (length d1 + k) px =
       (case padLoop ax (Some rs2) d2 k px of
          Inl e \<Rightarrow> Inl e
        | Inr px1 \<Rightarrow> padLoop ax (Some rs1) d1 (length d1) px1)"
proof (induction k arbitrary: px)
  case 0
  then show ?case by (simp add: padLoop_prefix)
next
  case (Suc k)
  from Suc.prems have
    "padPoint ax (Some (rs1 @ rs2)) (d1 @ d2) (length d1 + k) px = padPoint ax (Some rs2) d2 k px"
    by (rule padPoint_suffix)
  with Suc show ?case by (simp split: sum.splits)
qed

text \<open>A point with a \<^verbatim>\<open>null\<close> radius inside the axis leaves the accumulated values alone.\<close>

lemma padPoint_null_inside:
  assumes "fst px \<le> 0" and "len ax \<le> snd px"
    and "min_axis ax \<le> d" and "d \<le> max_axis ax"
    and "max_axis ax - min_axis ax > 0" and "0 \<le> len ax"
  shows "padPoint ax (Some [None]) [Some d] 0 px = Inr px"
proof -
  let ?p = "(d - min_axis ax) * transA0 ax"
  have t: "0 \<le> transA0 ax" using assms(5,6) by (simp add: transA0_def)
  have lo: "0 \<le> ?p" using assms(3) t by simp
  have "(d - min_axis ax) / (max_axis ax - min_axis ax) \<le> 1" using assms(4,5) by simp
  then have "(d - min_axis ax) / (max_axis ax - min_axis ax) * len ax \<le> 1 * len ax"
    using assms(6) by (rule mult_right_mono)
  then have hi: "?p \<le> len ax" by (simp add: transA0_def)
  from lo hi assms(1,2) have "min ?p (fst px) = fst px" "max ?p (snd px) = snd px" by simp_all
  then show ?thesis by (simp add: padPoint_def toNumber_def prod_eq_iff)
qed

lemma padLoop_null_point:
  assumes lens: "length rs1 = length d1"
    and inv: "fst px \<le> 0" "len ax \<le> snd px"
    and pos: "min_axis ax \<le> d" "d \<le> max_axis ax"
    and range: "max_axis ax - min_axis ax > 0" and len: "0 \<le> len ax"
  shows "padLoop ax (Some (rs1 @ None # rs2)) (d1 @ Some d # d2) (Suc (length d1 + length d2)) px =
         padLoop ax (Some (rs1 @ rs2)) (d1 @ d2) (length d1 + length d2) px"
proof -
  have one: "padLoop ax (Some ([None] @ rs2)) ([Some d] @ d2) (length [Some d] + length d2) px =
       (case padLoop ax (Some rs2) d2 (length d2) px of
          Inl e \<Rightarrow> Inl e
        | Inr px1 \<Rightarrow> padLoop ax (Some [None]) [Some d] (length [Some d]) px1)"
    by (rule padLoop_append) simp
  have skip: "padLoop ax (Some [None]) [Some d] (length [Some d]) px1 = Inr px1"
    if "padLoop ax (Some rs2) d2 (length d2) px = Inr px1" for px1
  proof -
    from padLoop_bounds [OF that] inv have "fst px1 \<le> 0" "len ax \<le> snd px1" by simp_all
    then show ?thesis using padPoint_null_inside [OF _ _ pos range len, of px1] by simp
  qed
  have tail: "padLoop ax (Some (None # rs2)) (Some d # d2) (Suc (length d2)) px =
        padLoop ax (Some rs2) d2 (length d2) px"
    using one skip by (cases "padLoop ax (Some rs2) d2 (length d2) px") simp_all
  have "padLoop ax (Some (rs1 @ None # rs2)) (d1 @ Some d # d2) (length d1 + length (Some d # d2)) px =
       (case padLoop ax (Some (None # rs2)) (Some d # d2) (length (Some d # d2)) px of
          Inl e \<Rightarrow> Inl e
        | Inr px1 \<Rightarrow> padLoop ax (Some rs1) d1 (length d1) px1)"
    using lens by (rule padLoop_append)
  also have "\<dots> = (case padLoop ax (Some rs2) d2 (length d2) px of
          Inl e \<Rightarrow> Inl e
        | Inr px1 \<Rightarrow> padLoop ax (Some rs1) d1 (length d1) px1)"
    using tail by simp
  also have "\<dots> = padLoop ax (Some (rs1 @ rs2)) (d1 @ d2) (length d1 + length d2) px"
    using lens by (rule padLoop_append [symmetric])
  finally show ?thesis by simp
qed

text \<open>
  Claim C8, amended. A \<^verbatim>\<open>null\<close> z value gets a \<^verbatim>\<open>null\<close> radius, which the padding loop
  counts as the radius 0. If the \<open>x\<close> (or \<open>y\<close>) value \<open>d\<close> of the point lies within the
  current \<^verbatim>\<open>axis.min\<close> and \<^verbatim>\<open>axis.max\<close> of an axis with a positive range, the padding
  loop of the series accumulates the same \<open>pxMin\<close> and \<open>pxMax\<close> as on the series
  without the point, for the same \<^verbatim>\<open>zMin\<close> and \<^verbatim>\<open>zMax\<close> passed to \<^verbatim>\<open>getRadii\<close>.
\<close>

theorem null_z_inside_axis:
  assumes lens: "length z1 = length d1"
    and inv: "fst px \<le> 0" "len ax \<le> snd px"
    and pos: "min_axis ax \<le> d" "d \<le> max_axis ax"
    and range: "max_axis ax - min_axis ax > 0" and len: "0 \<le> len ax"
  shows "getRadii opts (z1 @ None # z2) zmin zmax mn mx ! length z1 = None \<and>
     padLoop ax (Some (getRadii opts (z1 @ None # z2) zmin zmax mn mx)) (d1 @ Some d # d2)
         (length (d1 @ Some d # d2)) px =
     padLoop ax (Some (getRadii opts (z1 @ z2) zmin zmax mn mx)) (d1 @ d2) (length (d1 @ d2)) px"
proof -
  let ?r1 = "getRadii opts z1 zmin zmax mn mx" and ?r2 = "getRadii opts z2 zmin zmax mn mx"
  have a: "getRadii opts (z1 @ None # z2) zmin zmax mn mx = ?r1 @ None # ?r2"
    using getRadii_append [of opts z1 "[None] @ z2" zmin zmax mn mx]
      getRadii_append [of opts "[None]" z2 zmin zmax mn mx]
    by (simp add: getRadii_null)
  have b: "getRadii opts (z1 @ z2) zmin zmax mn mx = ?r1 @ ?r2" by (rule getRadii_append)
  have l: "length ?r1 = length d1" using lens by (simp add: getRadii_length)
  have n: "(?r1 @ None # ?r2) ! length z1 = None"
    by (simp add: nth_append getRadii_length)
  have p: "padLoop ax (Some (?r1 @ None # ?r2)) (d1 @ Some d # d2)
             (Suc (length d1 + length d2)) px =
           padLoop ax (Some (?r1 @ ?r2)) (d1 @ d2) (length d1 + length d2) px"
    using l inv pos range len by (rule padLoop_null_point)
  show ?thesis unfolding a b using n p by simp
qed

theorem null_z_inside_axis_witness:
  "length ([] :: real option list) = length ([] :: real option list) \<and>
   fst (0 :: real, 100 :: real) \<le> 0 \<and> len exAxis \<le> snd (0 :: real, 100 :: real) \<and>
   min_axis exAxis \<le> 2 \<and> 2 \<le> max_axis exAxis \<and> max_axis exAxis - min_axis exAxis > 0 \<and>
   0 \<le> len exAxis \<and>
   getRadii (options exNullPoint) ([] @ None # [Some 1]) 0 2 20 20 ! length ([] :: real option list) = None \<and>
   padLoop exAxis (Some (getRadii (options exNullPoint) ([] @ None # [Some 1]) 0 2 20 20))
       ([] @ Some 2 # [Some 10]) (length ([] @ Some 2 # [Some (10 :: real)])) (0, 100) = Inr (0, 110) \<and>
   padLoop exAxis (Some (getRadii (options exNullPoint) ([] @ [Some 1]) 0 2 20 20))
       ([] @ [Some 10]) (length ([] @ [Some (10 :: real)])) (0, 100) = Inr (0, 110)"
proof -
  have h: "length ([] :: real option list) = length ([] :: real option list)"
    "fst (0 :: real, 100 :: real) \<le> 0" "len exAxis \<le> snd (0 :: real, 100 :: real)"
    "min_axis exAxis \<le> 2" "2 \<le> max_axis exAxis" "max_axis exAxis - min_axis exAxis > 0"
    "0 \<le> len exAxis"
    by (simp_all add: exAxis_def)
  have e: "padLoop exAxis (Some (getRadii (options exNullPoint) ([] @ [Some 1]) 0 2 20 20))
       ([] @ [Some 10]) (length ([] @ [Some (10 :: real)])) (0, 100) = Inr (0, 110)"
    by (simp add: ex_defs exNullPoint_def)
  from null_z_inside_axis [OF h, of "options exNullPoint" "[Some 1]" 0 2 20 20 "[Some 10]"] e h
  show ?thesis by simp
qed

text \<open>
  Claim C8, as stated, fails in its second part: the point is not left out of the padding
  loop, its \<^verbatim>\<open>null\<close> radius counts as 0 and its position still enters \<open>pxMin\<close> and
  \<open>pxMax\<close>. On an axis with \<^verbatim>\<open>min: 5\<close> set in its options and data from 0 to 10, a
  point at \<open>x = 2\<close> with a \<^verbatim>\<open>null\<close> z lies 60 pixels before the axis: \<open>pxMin\<close> is
  \<open>-60\<close> with the point and 0 without it, and \<^verbatim>\<open>axis.max\<close> becomes \<open>35/3\<close> instead of
  \<open>95/9\<close>. The z extremes are fixed by the options \<^verbatim>\<open>zMin\<close> and \<^verbatim>\<open>zMax\<close> in both runs.
\<close>

theorem null_z_outside_axis_counterexample:
  "zData exNullPoint ! 0 = None \<and>
   paddingPasses arrayMin arrayMax exChart exPinnedAxis [exNullPoint] =
     Inr ([exNullPoint\<lparr>radii := Some [None, Some 10], minPxSize := Some 20, maxPxSize := Some 20\<rparr>],
          - 60, 110) \<and>
   paddingPasses arrayMin arrayMax exChart exPinnedAxis [exNullPointAbsent] =
     Inr ([exNullPointAbsent\<lparr>radii := Some [Some 10], minPxSize := Some 20, maxPxSize := Some 20\<rparr>],
          0, 110) \<and>
   beforePadding arrayMin arrayMax exChart exPinnedAxis [exNullPoint] =
     Inr (exPinnedAxis\<lparr>max_axis := 35 / 3, allowZoomOutside := True\<rparr>,
          [exNullPoint\<lparr>radii := Some [None, Some 10], minPxSize := Some 20, maxPxSize := Some 20\<rparr>]) \<and>
   beforePadding arrayMin arrayMax exChart exPinnedAxis [exNullPointAbsent] =
     Inr (exPinnedAxis\<lparr>max_axis := 95 / 9, allowZoomOutside := True\<rparr>,
          [exNullPointAbsent\<lparr>radii := Some [Some 10], minPxSize := Some 20, maxPxSize := Some 20\<rparr>]) \<and>
   (- 60 :: real) \<noteq> 0 \<and> (35 / 3 :: real) \<noteq> 95 / 9"
  by (simp add: ex_defs exNullPoint_def exNullPointAbsent_def exPinnedAxis_def)

subsection \<open>Two runs in succession\<close>























end
